theory Spec2Isabelle
  imports Main "HOL-Library.Sublist"
begin

section \<open>Data model (provisioner/models.py)\<close>

text \<open>
  Python strings are modelled as \<open>string\<close>. A string literal cannot end or begin with
  a single quote, so the quote character is spelled out as \<open>sq\<close>.
\<close>

definition sq :: string where
  "sq = [CHR 0x27]"

text \<open>
  The five members of the enumeration, and a value outside it. The field is validated
  when a \<open>ModelSpec\<close> is built from input, not when the attribute is assigned, so a
  value that is no member can be stored; \<open>mapping.get\<close> has its default for it.
\<close>

datatype ModelType = CHECKPOINT | LORA | VAE | EMBEDDING | CONTROLNET | Unmapped string

record ModelSpec =
  name :: string
  url :: string
  type :: ModelType
  subfolder :: "string option"

record ProvisioningConfig =
  api_key :: string
  hf_token :: "string option"
  gpu_type_id :: string
  cloud_type :: string
  volume_size_gb :: int
  container_disk_size_gb :: int
  template_id :: string
  models :: "ModelSpec list"
  comfyui_repo :: string
  comfyui_manager_repo :: string

text \<open>Truthiness of an \<open>Optional[str]\<close>: neither \<open>None\<close> nor the empty string.\<close>

fun str_truthy :: "string option \<Rightarrow> bool" where
  "str_truthy None = False"
| "str_truthy (Some s) = (s \<noteq> [])"

text \<open>\<open>dict.get(key, default)\<close> on a dictionary literal, kept as an association list.\<close>

definition dict_get :: "('k \<times> 'v) list \<Rightarrow> 'k \<Rightarrow> 'v \<Rightarrow> 'v" where
  "dict_get d k dflt = (case map_of d k of Some v \<Rightarrow> v | None \<Rightarrow> dflt)"

definition mapping :: "(ModelType \<times> string) list" where
  "mapping =
    [(CHECKPOINT, ''checkpoints''),
     (LORA, ''loras''),
     (VAE, ''vae''),
     (EMBEDDING, ''embeddings''),
     (CONTROLNET, ''controlnet'')]"

text \<open>
  \<open>ModelSpec.install_path\<close>: \<open>if self.subfolder: return self.subfolder\<close>, otherwise
  the lookup in \<open>mapping\<close> with default \<open>"checkpoints"\<close>.
\<close>

definition install_path :: "ModelSpec \<Rightarrow> string" where
  "install_path self =
    (case subfolder self of
       Some s \<Rightarrow> if str_truthy (Some s) then s else dict_get mapping (type self) ''checkpoints''
     | None \<Rightarrow> dict_get mapping (type self) ''checkpoints'')"

text \<open>The per-type default directory, as the specification lists it.\<close>

fun spec_default_dir :: "ModelType \<Rightarrow> string" where
  "spec_default_dir CHECKPOINT = ''checkpoints''"
| "spec_default_dir LORA = ''loras''"
| "spec_default_dir VAE = ''vae''"
| "spec_default_dir EMBEDDING = ''embeddings''"
| "spec_default_dir CONTROLNET = ''controlnet''"
| "spec_default_dir (Unmapped v) = ''checkpoints''"

text \<open>A LoRA whose subfolder is set to the empty string.\<close>

definition lora_empty_subfolder :: ModelSpec where
  "lora_empty_subfolder =
    \<lparr>name = ''style.safetensors'', url = ''https://example.com/style.safetensors'',
     type = LORA, subfolder = Some ''''\<rparr>"

definition vae_no_subfolder :: ModelSpec where
  "vae_no_subfolder =
    \<lparr>name = ''vae.pt'', url = ''https://example.com/vae.pt'',
     type = VAE, subfolder = None\<rparr>"

definition lora_custom_subfolder :: ModelSpec where
  "lora_custom_subfolder =
    \<lparr>name = ''style.safetensors'', url = ''https://example.com/style.safetensors'',
     type = LORA, subfolder = Some ''custom/dir''\<rparr>"

text \<open>A model whose type was assigned a value outside the enumeration.\<close>

definition unmapped_no_subfolder :: ModelSpec where
  "unmapped_no_subfolder =
    \<lparr>name = ''up.pth'', url = ''https://example.com/up.pth'',
     type = Unmapped ''upscaler'', subfolder = None\<rparr>"

section \<open>Script synthesis (RunPodService.generate_setup_script)\<close>

text \<open>\<open>s.startswith(p)\<close>, \<open>needle in hay\<close> and \<open>sep.join(xs)\<close> on Python strings.\<close>

definition startswith :: "string \<Rightarrow> string \<Rightarrow> bool" where
  "startswith s p = (take (length p) s = p)"

fun str_contains :: "string \<Rightarrow> string \<Rightarrow> bool" where
  "str_contains needle [] = (needle = [])"
| "str_contains needle (c # cs) = (startswith (c # cs) needle \<or> str_contains needle cs)"

fun str_join :: "string \<Rightarrow> string list \<Rightarrow> string" where
  "str_join sep [] = []"
| "str_join sep [x] = x"
| "str_join sep (x # y # ys) = x @ sep @ str_join sep (y # ys)"

text \<open>The list literal that \<open>script\<close> starts from (lines 67 to 88 of the source).\<close>

definition script_header :: "ProvisioningConfig \<Rightarrow> string list" where
  "script_header config =
    [''#!/bin/bash'',
     ''set -e'',
     ''echo 'Starting ComfyUI Provisioning...'' @ sq,
     ''cd /workspace'',
     [],
     ''# Install ComfyUI'',
     ''if [ ! -d 'ComfyUI' ]; then'',
     ''  git clone '' @ comfyui_repo config,
     ''fi'',
     ''cd ComfyUI'',
     ''pip install -r requirements.txt'',
     [],
     ''# Install Manager'',
     ''cd custom_nodes'',
     ''if [ ! -d 'ComfyUI-Manager' ]; then'',
     ''  git clone '' @ comfyui_manager_repo config,
     ''fi'',
     ''cd ..'',
     [],
     ''# Download Models'']"

text \<open>
  The value of \<open>wget_args\<close> for one model: the authorization header when
  \<open>"huggingface.co" in model.url and config.hf_token\<close>, the empty string otherwise.
\<close>

definition wget_args :: "ProvisioningConfig \<Rightarrow> ModelSpec \<Rightarrow> string" where
  "wget_args config model =
    (case hf_token config of
       Some tok \<Rightarrow>
         if str_contains ''huggingface.co'' (url model) \<and> str_truthy (Some tok)
         then ''--header='Authorization: Bearer '' @ tok @ sq
         else []
     | None \<Rightarrow> [])"

text \<open>The two strings one iteration appends: the progress echo and the download command.\<close>

definition echo_line :: "ModelSpec \<Rightarrow> string" where
  "echo_line model = ''echo 'Downloading '' @ name model @ ''...'' @ sq"

definition wget_line :: "ProvisioningConfig \<Rightarrow> ModelSpec \<Rightarrow> string" where
  "wget_line config model =
    (let path = ''models/'' @ install_path model
     in ''wget '' @ wget_args config model @ '' -O '' @ sq @ path @ ''/'' @ name model @ sq
        @ '' '' @ sq @ url model @ sq)"

text \<open>The body of \<open>for model in config.models\<close>, from the list so far to the list after.\<close>

definition loop_body :: "ProvisioningConfig \<Rightarrow> string list \<Rightarrow> ModelSpec \<Rightarrow> string list" where
  "loop_body config script model =
    (if startswith (url model) ''http''
     then (script @ [echo_line model]) @ [wget_line config model]
     else script)"

fun download_loop :: "ProvisioningConfig \<Rightarrow> string list \<Rightarrow> ModelSpec list \<Rightarrow> string list" where
  "download_loop config script [] = script"
| "download_loop config script (model # rest) =
     download_loop config (loop_body config script model) rest"

text \<open>
  The string appended after the loop, the list \<open>script\<close> at the \<open>return\<close>, and the
  text returned.
\<close>

definition completion_line :: string where
  "completion_line = ''echo 'Provisioning Complete!'' @ sq"

definition script_lines :: "ProvisioningConfig \<Rightarrow> string list" where
  "script_lines config =
    download_loop config (script_header config) (models config) @ [completion_line]"

definition generate_setup_script :: "ProvisioningConfig \<Rightarrow> string" where
  "generate_setup_script config = str_join ''\<newline>'' (script_lines config)"

subsection \<open>The method as a relation between configuration and returned text\<close>







text \<open>The lines of a text, split at line breaks, to relate the returned text to the list.\<close>

fun split_lines :: "string \<Rightarrow> string list" where
  "split_lines [] = [[]]"
| "split_lines (c # cs) =
     (if c = CHR ''\<newline>'' then [] # split_lines cs
      else (case split_lines cs of
              [] \<Rightarrow> [[c]]
            | l # ls \<Rightarrow> (c # l) # ls))"

text \<open>What one iteration adds to the list, for one model.\<close>

definition model_lines :: "ProvisioningConfig \<Rightarrow> ModelSpec \<Rightarrow> string list" where
  "model_lines config model = loop_body config [] model"

subsection \<open>The specification's vocabulary\<close>

text \<open>
  A download line is a line that invokes \<open>wget\<close>; it contains an authorization header
  when the header option occurs anywhere in it.
\<close>

definition is_download_line :: "string \<Rightarrow> bool" where
  "is_download_line l = startswith l ''wget ''"

definition has_auth_header :: "string \<Rightarrow> bool" where
  "has_auth_header l = str_contains ''--header='Authorization:'' l"

text \<open>
  Fields that keep to one line of the script, and fields that cannot leave the single
  quotes the script puts around them.
\<close>

definition one_line :: "string \<Rightarrow> bool" where
  "one_line s = (CHR ''\<newline>'' \<notin> set s)"

definition quote_free :: "string \<Rightarrow> bool" where
  "quote_free s = (CHR 0x27 \<notin> set s)"

definition single_line_fields :: "ProvisioningConfig \<Rightarrow> bool" where
  "single_line_fields config =
    (one_line (comfyui_repo config) \<and> one_line (comfyui_manager_repo config) \<and>
     (case hf_token config of None \<Rightarrow> True | Some tok \<Rightarrow> one_line tok) \<and>
     list_all (\<lambda>m. one_line (name m) \<and> one_line (url m) \<and> one_line (install_path m))
       (filter (\<lambda>m. startswith (url m) ''http'') (models config)))"

text \<open>Two given characters next to each other in a text.\<close>

fun adjacent :: "char \<Rightarrow> char \<Rightarrow> string \<Rightarrow> bool" where
  "adjacent a b (x # y # zs) = ((x = a \<and> y = b) \<or> adjacent a b (y # zs))"
| "adjacent a b _ = False"

text \<open>
  A URL uses an HTTP(S) scheme, in the specification's words, when it begins with
  \<open>http://\<close> or \<open>https://\<close>.
\<close>

definition spec_uses_http_scheme :: "string \<Rightarrow> bool" where
  "spec_uses_http_scheme u = (startswith u ''http://'' \<or> startswith u ''https://'')"

text \<open>
  The host of a URL, in the specification's words: the authority between \<open>://\<close> and the
  next \<open>/\<close>, \<open>?\<close> or \<open>#\<close>, without user information and port.
\<close>

fun after_scheme :: "string \<Rightarrow> string" where
  "after_scheme [] = []"
| "after_scheme (c # cs) =
     (if startswith (c # cs) ''://'' then drop 3 (c # cs) else after_scheme cs)"

definition spec_url_host :: "string \<Rightarrow> string" where
  "spec_url_host u =
    (let authority = takeWhile (\<lambda>c. c \<notin> set ''/?#'') (after_scheme u);
         hostport = rev (takeWhile (\<lambda>c. c \<noteq> CHR ''@'') (rev authority))
     in takeWhile (\<lambda>c. c \<noteq> CHR '':'') hostport)"

definition spec_host_is_hugging_face :: "ModelSpec \<Rightarrow> bool" where
  "spec_host_is_hugging_face model = str_contains ''huggingface.co'' (spec_url_host (url model))"

subsection \<open>Example configurations\<close>

definition base_config :: ProvisioningConfig where
  "base_config =
    \<lparr>api_key = ''key'', hf_token = None,
     gpu_type_id = ''NVIDIA GeForce RTX 3090'', cloud_type = ''COMMUNITY'',
     volume_size_gb = 40, container_disk_size_gb = 40,
     template_id = ''runpod/pytorch:2.0.1-py3.10-cuda11.8.0-devel-ubuntu22.04'',
     models = [],
     comfyui_repo = ''https://github.com/comfyanonymous/ComfyUI'',
     comfyui_manager_repo = ''https://github.com/ltdrdata/ComfyUI-Manager.git''\<rparr>"

text \<open>End-to-end scenario 2 of the specification.\<close>

definition scenario2_model :: ModelSpec where
  "scenario2_model =
    \<lparr>name = ''a.safetensors'', url = ''https://huggingface.co/x/a.safetensors'',
     type = CHECKPOINT, subfolder = None\<rparr>"

definition scenario2_config :: ProvisioningConfig where
  "scenario2_config = base_config\<lparr>hf_token := Some ''tok'', models := [scenario2_model]\<rparr>"

text \<open>A model served by another host, with the Hugging Face domain in the path only.\<close>

definition mirror_model :: ModelSpec where
  "mirror_model =
    \<lparr>name = ''m.bin'', url = ''https://mirror.example.com/huggingface.co/m.bin'',
     type = CHECKPOINT, subfolder = None\<rparr>"

definition mirror_config :: ProvisioningConfig where
  "mirror_config = base_config\<lparr>hf_token := Some ''tok'', models := [mirror_model]\<rparr>"

text \<open>A model whose URL begins with \<open>http\<close> without using the HTTP or HTTPS scheme.\<close>

definition httpx_model :: ModelSpec where
  "httpx_model =
    \<lparr>name = ''n.bin'', url = ''httpx://example.com/n.bin'',
     type = CHECKPOINT, subfolder = None\<rparr>"

definition httpx_config :: ProvisioningConfig where
  "httpx_config = base_config\<lparr>models := [httpx_model]\<rparr>"

text \<open>A model on the Hugging Face host, reached by a scheme other than HTTP(S).\<close>

definition ftp_model :: ModelSpec where
  "ftp_model =
    \<lparr>name = ''f.bin'', url = ''ftp://huggingface.co/x/f.bin'',
     type = CHECKPOINT, subfolder = None\<rparr>"

definition ftp_config :: ProvisioningConfig where
  "ftp_config = base_config\<lparr>hf_token := Some ''tok'', models := [ftp_model]\<rparr>"

text \<open>Two entries of the same name, a local path between them, and no token.\<close>

definition dup_model :: ModelSpec where
  "dup_model =
    \<lparr>name = ''d.pt'', url = ''http://example.com/d.pt'', type = VAE, subfolder = None\<rparr>"

definition local_model :: ModelSpec where
  "local_model =
    \<lparr>name = ''l.pt'', url = ''/tmp/l.pt'', type = LORA, subfolder = None\<rparr>"

definition dup_config :: ProvisioningConfig where
  "dup_config = base_config\<lparr>models := [dup_model, local_model, dup_model]\<rparr>"

text \<open>A name that closes the quote and carries a header option; no token is configured.\<close>

definition quote_model :: ModelSpec where
  "quote_model =
    \<lparr>name = ''a.bin'' @ sq @ '' --header='Authorization: Bearer other'',
     url = ''http://example.com/a.bin'', type = CHECKPOINT, subfolder = None\<rparr>"

definition quote_config :: ProvisioningConfig where
  "quote_config = base_config\<lparr>models := [quote_model]\<rparr>"

text \<open>
  A model with a local path, and a second model whose name carries, after a line break,
  a download command for the first.
\<close>

definition carrier_model :: ModelSpec where
  "carrier_model =
    \<lparr>name = ''x'' @ sq @ ''\<newline>'' @ ''wget  -O '' @ sq @ ''models/loras/l.pt'' @ sq @ '' ''
            @ sq @ ''/tmp/l.pt'' @ sq @ ''\<newline>'' @ ''echo '' @ sq @ ''y'',
     url = ''https://example.com/x.bin'', type = CHECKPOINT, subfolder = None\<rparr>"

definition carrier_config :: ProvisioningConfig where
  "carrier_config = base_config\<lparr>models := [local_model, carrier_model]\<rparr>"

text \<open>A name with a line break in it.\<close>

definition break_model :: ModelSpec where
  "break_model =
    \<lparr>name = ''a.bin'' @ ''\<newline>'' @ ''wget http://other.example/b.bin'',
     url = ''https://example.com/a.bin'', type = CHECKPOINT, subfolder = None\<rparr>"

definition break_config :: ProvisioningConfig where
  "break_config = base_config\<lparr>models := [break_model]\<rparr>"

text \<open>No models, and a repository URL with a line break in it.\<close>

definition break_repo_config :: ProvisioningConfig where
  "break_repo_config =
    base_config\<lparr>comfyui_repo :=
      ''https://example.com/app'' @ ''\<newline>'' @ ''wget http://other.example/b.bin''\<rparr>"

section \<open>Provider records (the dictionaries returned by the provider API)\<close>

text \<open>
  A dictionary key is absent, present with the value \<open>None\<close>, or present with a value.
  \<open>desiredStatus\<close> is read by subscript and is taken to be always there.
\<close>

datatype 'a entry = Absent | PyNone | Present 'a

record port_mapping =
  privatePort :: int
  publicPort :: int
  ip :: string

record runtime_info =
  ports :: "port_mapping list entry"

record pod =
  desiredStatus :: string
  runtime :: "runtime_info entry"

datatype error = RuntimeError string | AttributeError string

text \<open>Truthiness of \<open>d.get('ports')\<close> and of an integer that may be \<open>None\<close>.\<close>

fun ports_truthy :: "port_mapping list entry \<Rightarrow> bool" where
  "ports_truthy (Present ps) = (ps \<noteq> [])"
| "ports_truthy _ = False"

fun int_truthy :: "int option \<Rightarrow> bool" where
  "int_truthy None = False"
| "int_truthy (Some n) = (n \<noteq> 0)"

section \<open>Waiting for the pod (RunPodService.wait_for_pod)\<close>

text \<open>
  \<open>pod.get('runtime', {}).get('ports')\<close>: the default \<open>{}\<close> stands in for an absent key
  only; a key present with \<open>None\<close> has no \<open>get\<close> and raises.
\<close>

definition runtime_ports_populated :: "pod \<Rightarrow> error + bool" where
  "runtime_ports_populated p =
    (case runtime p of
       Absent \<Rightarrow> Inr False
     | PyNone \<Rightarrow>
         Inl (AttributeError
           (sq @ ''NoneType'' @ sq @ '' object has no attribute '' @ sq @ ''get'' @ sq))
     | Present r \<Rightarrow> Inr (ports_truthy (ports r)))"

text \<open>
  One pass through the body of \<open>while True\<close> on the polled pod: \<open>Some\<close> when the loop is
  left (by \<open>return pod\<close> or by a raise), \<open>None\<close> when it sleeps and polls again.
\<close>

definition poll_step :: "pod \<Rightarrow> (error + pod) option" where
  "poll_step p =
    (case (if desiredStatus p = ''RUNNING'' then runtime_ports_populated p else Inr False) of
       Inl e \<Rightarrow> Some (Inl e)
     | Inr True \<Rightarrow> Some (Inr p)
     | Inr False \<Rightarrow>
         if desiredStatus p = ''EXITED''
         then Some (Inl (RuntimeError ''Pod exited unexpectedly''))
         else None)"

text \<open>
  The loop. \<open>get_pod k\<close> is the provider's answer to the \<open>k\<close>-th call of
  \<open>runpod.get_pod(pod_id)\<close>; the result carries the number of calls made. The loop has no
  bound, so a run that never leaves it has the value \<open>None\<close>.
\<close>

partial_function (option) wait_loop :: "(nat \<Rightarrow> pod) \<Rightarrow> nat \<Rightarrow> ((error + pod) \<times> nat) option" where
  "wait_loop get_pod k =
    (case poll_step (get_pod k) of
       Some r \<Rightarrow> Some (r, Suc k)
     | None \<Rightarrow> wait_loop get_pod (Suc k))"

declare wait_loop.simps [code]

definition wait_for_pod :: "(string \<Rightarrow> nat \<Rightarrow> pod) \<Rightarrow> string \<Rightarrow> ((error + pod) \<times> nat) option" where
  "wait_for_pod provider pod_id = wait_loop (provider pod_id) 0"

text \<open>Port mappings are populated, in the specification's words.\<close>

definition spec_ports_populated :: "pod \<Rightarrow> bool" where
  "spec_ports_populated p =
    (case runtime p of
       Present r \<Rightarrow> (case ports r of Present ps \<Rightarrow> ps \<noteq> [] | _ \<Rightarrow> False)
     | _ \<Rightarrow> False)"

section \<open>Remote session (RunPodService.execute_setup)\<close>

text \<open>
  What the generator does, in order, when it is consumed to the end: sleeps, connection
  attempts, remote commands, yielded lines and the closing of the session.
\<close>

datatype event = Sleep nat | Connect string int | Exec string | Yield string | Close

text \<open>
  The remote side: the exception text of the \<open>i\<close>-th connection attempt (\<open>None\<close> when it
  connects), the exit status of the command that writes the script, and what
  \<open>stdout.readline\<close> returns, call by call, while the script runs. Remote commands
  themselves are taken not to raise.
\<close>

record ssh_env =
  connect_error :: "nat \<Rightarrow> string option"
  write_exit_status :: int
  script_stdout :: "string list"

text \<open>The scan \<open>for port in pod['runtime']['ports']\<close> with its \<open>break\<close>.\<close>

fun ssh_scan :: "port_mapping list \<Rightarrow> int option \<times> string option \<Rightarrow> int option \<times> string option" where
  "ssh_scan [] found = found"
| "ssh_scan (port # rest) found =
     (if privatePort port = 22 then (Some (publicPort port), Some (ip port))
      else ssh_scan rest found)"

text \<open>
  \<open>ssh_port\<close> and \<open>public_ip\<close> after the scan; the scan runs only if
  \<open>pod.get('runtime') and pod['runtime'].get('ports')\<close>.
\<close>

definition ssh_info :: "pod \<Rightarrow> int option \<times> string option" where
  "ssh_info p =
    (case runtime p of
       Present r \<Rightarrow>
         (case ports r of
            Present ps \<Rightarrow> if ps \<noteq> [] then ssh_scan ps (None, None) else (None, None)
          | _ \<Rightarrow> (None, None))
     | _ \<Rightarrow> (None, None))"

definition retries :: nat where
  "retries = 10"

text \<open>
  \<open>for i in range(retries)\<close>: the events of the loop, and whether the generator goes on
  to the statements after it (\<open>break\<close>, or the range running out) or has returned.
\<close>

fun connect_loop :: "ssh_env \<Rightarrow> string \<Rightarrow> int \<Rightarrow> nat list \<Rightarrow> event list \<times> bool" where
  "connect_loop env public_ip ssh_port [] = ([], True)"
| "connect_loop env public_ip ssh_port (i # rest) =
     (case connect_error env i of
        None \<Rightarrow> ([Connect public_ip ssh_port], True)
      | Some e \<Rightarrow>
          if int i = int retries - 1
          then ([Connect public_ip ssh_port, Yield (''Failed to connect via SSH: '' @ e)], False)
          else (case connect_loop env public_ip ssh_port rest of
                  (evs, go_on) \<Rightarrow>
                    ([Connect public_ip ssh_port, Sleep 2, Yield ''Waiting for SSH...''] @ evs,
                     go_on)))"

text \<open>
  \<open>line.strip()\<close>: the white space of \<open>str.isspace\<close> among the first 256 code points,
  which are the characters of this model.
\<close>

definition is_space :: "char \<Rightarrow> bool" where
  "is_space c = (c \<in> set [CHR '' '', CHR 0x09, CHR ''\<newline>'', CHR 0x0B, CHR 0x0C, CHR 0x0D,
                           CHR 0x1C, CHR 0x1D, CHR 0x1E, CHR 0x1F, CHR 0x85, CHR 0xA0])"

definition strip :: "string \<Rightarrow> string" where
  "strip s = rev (dropWhile is_space (rev (dropWhile is_space s)))"

text \<open>
  After the connection: write the script through a heredoc, check the exit status, run
  the script, yield its output line by line until \<open>readline\<close> returns the empty string,
  close.
\<close>

definition run_script :: "ssh_env \<Rightarrow> ProvisioningConfig \<Rightarrow> event list" where
  "run_script env config =
    (let script_content = generate_setup_script config;
         cmd = ''cat << 'EOF' > /workspace/setup_comfy.sh'' @ ''\<newline>'' @ script_content
               @ ''\<newline>'' @ ''EOF'' @ ''\<newline>''
     in Exec cmd #
        (if write_exit_status env \<noteq> 0 then [Yield ''Failed to write setup script.'']
         else Exec ''chmod +x /workspace/setup_comfy.sh && /workspace/setup_comfy.sh''
              # map (\<lambda>line. Yield (strip line)) (takeWhile (\<lambda>line. line \<noteq> []) (script_stdout env))
              @ [Close]))"

definition execute_setup :: "pod \<Rightarrow> ProvisioningConfig \<Rightarrow> ssh_env \<Rightarrow> event list" where
  "execute_setup p config env =
    (case ssh_info p of
       (ssh_port, public_ip) \<Rightarrow>
         if \<not> int_truthy ssh_port \<or> \<not> str_truthy public_ip
         then [Yield ''Error: Could not find SSH port.'']
         else (case (ssh_port, public_ip) of
                 (Some port_no, Some addr) \<Rightarrow>
                   (case connect_loop env addr port_no [0..<retries] of
                      (evs, go_on) \<Rightarrow>
                        Sleep 5 # evs @ (if go_on then run_script env config else []))
               | _ \<Rightarrow> [Yield ''Error: Could not find SSH port.'']))"

text \<open>The lines the consumer receives, and the connection attempts and commands of a run.\<close>

fun output_lines :: "event list \<Rightarrow> string list" where
  "output_lines [] = []"
| "output_lines (Yield s # evs) = s # output_lines evs"
| "output_lines (_ # evs) = output_lines evs"

fun is_connect :: "event \<Rightarrow> bool" where
  "is_connect (Connect _ _) = True"
| "is_connect _ = False"

fun is_exec :: "event \<Rightarrow> bool" where
  "is_exec (Exec _) = True"
| "is_exec _ = False"

text \<open>The port-mapping set of an instance, in the specification's words.\<close>

definition spec_port_mappings :: "pod \<Rightarrow> port_mapping list" where
  "spec_port_mappings p =
    (case runtime p of
       Present r \<Rightarrow> (case ports r of Present ps \<Rightarrow> ps | _ \<Rightarrow> [])
     | _ \<Rightarrow> [])"

subsection \<open>Example instances\<close>

definition starting_pod :: pod where
  "starting_pod = \<lparr>desiredStatus = ''CREATED'', runtime = Absent\<rparr>"

definition exited_pod :: pod where
  "exited_pod = \<lparr>desiredStatus = ''EXITED'', runtime = PyNone\<rparr>"

definition running_pod :: pod where
  "running_pod =
    \<lparr>desiredStatus = ''RUNNING'',
     runtime = Present \<lparr>ports = Present
       [\<lparr>privatePort = 8188, publicPort = 18188, ip = ''203.0.113.7''\<rparr>,
        \<lparr>privatePort = 22, publicPort = 10022, ip = ''203.0.113.7''\<rparr>]\<rparr>\<rparr>"

definition http_only_pod :: pod where
  "http_only_pod =
    \<lparr>desiredStatus = ''RUNNING'',
     runtime = Present \<lparr>ports = Present
       [\<lparr>privatePort = 8188, publicPort = 18188, ip = ''203.0.113.7''\<rparr>]\<rparr>\<rparr>"

text \<open>End-to-end scenario 3: the third poll finds the instance exited.\<close>

definition exits_on_third_poll :: "string \<Rightarrow> nat \<Rightarrow> pod" where
  "exits_on_third_poll pod_id k = (if k < 2 then starting_pod else exited_pod)"

definition ready_on_third_poll :: "string \<Rightarrow> nat \<Rightarrow> pod" where
  "ready_on_third_poll pod_id k = (if k < 2 then starting_pod else running_pod)"

text \<open>A remote side that refuses every connection.\<close>

definition refusing_env :: ssh_env where
  "refusing_env =
    \<lparr>connect_error = (\<lambda>i. Some ''refused''), write_exit_status = 0, script_stdout = []\<rparr>"

section \<open>Install path\<close>

lemma mapping_lookup: "dict_get mapping t ''checkpoints'' = spec_default_dir t"
  by (cases t) (simp_all add: dict_get_def mapping_def)

lemma spec_default_dir_nonempty: "spec_default_dir t \<noteq> []"
  by (cases t) simp_all

text \<open>
  Claim C3, as stated, at a model whose subfolder is set to the empty string: the install
  path is the LoRA default directory, not the subfolder.
\<close>

theorem install_path_empty_subfolder_counterexample:
  "subfolder lora_empty_subfolder = Some '''' \<and>
   install_path lora_empty_subfolder = ''loras'' \<and>
   install_path lora_empty_subfolder \<noteq> ''''"
  by (simp add: lora_empty_subfolder_def install_path_def mapping_lookup)

text \<open>
  Claim C3, amended: the install path equals the subfolder whenever the subfolder is set
  to a non-empty string, whatever the type; when the subfolder is \<open>None\<close> it is the
  fixed per-type default directory, and \<open>checkpoints\<close> for any type that is not a key
  of the mapping.
\<close>

theorem install_path_subfolder_or_default:
  "(subfolder m = Some s \<and> s \<noteq> [] \<longrightarrow> install_path m = s) \<and>
   (subfolder m = None \<longrightarrow>
      install_path m =
        (case type m of CHECKPOINT \<Rightarrow> ''checkpoints'' | LORA \<Rightarrow> ''loras'' | VAE \<Rightarrow> ''vae''
         | EMBEDDING \<Rightarrow> ''embeddings'' | CONTROLNET \<Rightarrow> ''controlnet''
         | Unmapped v \<Rightarrow> ''checkpoints'')) \<and>
   (subfolder m = None \<and> map_of mapping (type m) = None \<longrightarrow>
      install_path m = ''checkpoints'')"
proof (intro conjI impI)
  assume "subfolder m = Some s \<and> s \<noteq> []"
  then show "install_path m = s"
    by (simp add: install_path_def)
next
  assume "subfolder m = None"
  then show "install_path m =
        (case type m of CHECKPOINT \<Rightarrow> ''checkpoints'' | LORA \<Rightarrow> ''loras'' | VAE \<Rightarrow> ''vae''
         | EMBEDDING \<Rightarrow> ''embeddings'' | CONTROLNET \<Rightarrow> ''controlnet''
         | Unmapped v \<Rightarrow> ''checkpoints'')"
    by (cases "type m") (simp_all add: install_path_def mapping_lookup)
next
  assume "subfolder m = None \<and> map_of mapping (type m) = None"
  then show "install_path m = ''checkpoints''"
    by (simp add: install_path_def dict_get_def)
qed

theorem install_path_subfolder_or_default_witness:
  "subfolder lora_custom_subfolder = Some ''custom/dir'' \<and>
   install_path lora_custom_subfolder = ''custom/dir'' \<and>
   subfolder vae_no_subfolder = None \<and>
   install_path vae_no_subfolder = ''vae'' \<and>
   subfolder unmapped_no_subfolder = None \<and>
   map_of mapping (type unmapped_no_subfolder) = None \<and>
   install_path unmapped_no_subfolder = ''checkpoints''"
proof -
  have a: "subfolder lora_custom_subfolder = Some ''custom/dir'' \<and> ''custom/dir'' \<noteq> []"
    by (simp add: lora_custom_subfolder_def)
  have b: "subfolder vae_no_subfolder = None"
    by (simp add: vae_no_subfolder_def)
  have t: "type vae_no_subfolder = VAE"
    by (simp add: vae_no_subfolder_def)
  have c: "subfolder unmapped_no_subfolder = None \<and>
      map_of mapping (type unmapped_no_subfolder) = None"
    by (simp add: unmapped_no_subfolder_def mapping_def)
  note th = install_path_subfolder_or_default
  from a th [of lora_custom_subfolder "''custom/dir''"]
  have r1: "install_path lora_custom_subfolder = ''custom/dir''" by blast
  from b th [of vae_no_subfolder "[]"]
  have "install_path vae_no_subfolder =
      (case type vae_no_subfolder of CHECKPOINT \<Rightarrow> ''checkpoints'' | LORA \<Rightarrow> ''loras''
       | VAE \<Rightarrow> ''vae'' | EMBEDDING \<Rightarrow> ''embeddings'' | CONTROLNET \<Rightarrow> ''controlnet''
       | Unmapped v \<Rightarrow> ''checkpoints'')"
    by blast
  then have r2: "install_path vae_no_subfolder = ''vae''"
    by (simp add: t)
  from c th [of unmapped_no_subfolder "[]"]
  have r3: "install_path unmapped_no_subfolder = ''checkpoints''" by blast
  from a b c r1 r2 r3 show ?thesis by (intro conjI) blast+
qed

text \<open>
  Claim C10: a subfolder that is set but empty gives the per-type default directory, not
  the empty string; so the install path is non-empty whenever the subfolder is \<open>None\<close>
  or empty.
\<close>

theorem install_path_empty_subfolder_default:
  "(subfolder m = Some [] \<longrightarrow> install_path m = spec_default_dir (type m)) \<and>
   (subfolder m = None \<or> subfolder m = Some [] \<longrightarrow> install_path m \<noteq> [])"
  by (auto simp: install_path_def mapping_lookup spec_default_dir_nonempty)

theorem install_path_empty_subfolder_default_witness:
  "subfolder lora_empty_subfolder = Some [] \<and>
   install_path lora_empty_subfolder = ''loras'' \<and>
   install_path lora_empty_subfolder \<noteq> []"
proof -
  have s: "subfolder lora_empty_subfolder = Some []"
    by (simp add: lora_empty_subfolder_def)
  have t: "type lora_empty_subfolder = LORA"
    by (simp add: lora_empty_subfolder_def)
  from s install_path_empty_subfolder_default [of lora_empty_subfolder]
  have "install_path lora_empty_subfolder = spec_default_dir (type lora_empty_subfolder)"
    and "install_path lora_empty_subfolder \<noteq> []"
    by blast+
  with s t show ?thesis by simp
qed

section \<open>Structure of the synthesized script\<close>

lemma startswith_prefix: "startswith s p \<longleftrightarrow> prefix p s"
  unfolding startswith_def prefix_def
  by (metis append_eq_conv_conj append_take_drop_id)

lemma loop_body_append: "loop_body config script model = script @ model_lines config model"
  by (simp add: loop_body_def model_lines_def)

lemma download_loop_append:
  "download_loop config script ms = script @ concat (map (model_lines config) ms)"
  by (induction ms arbitrary: script) (simp_all add: loop_body_append)

lemma script_lines_structure:
  "script_lines config =
     script_header config @ concat (map (model_lines config) (models config))
       @ [completion_line]"
  by (simp add: script_lines_def download_loop_append)

lemma model_lines_cases:
  "model_lines config m =
     (if startswith (url m) ''http'' then [echo_line m, wget_line config m] else [])"
  by (simp add: model_lines_def loop_body_def)

lemma concat_map_if:
  "concat (map (\<lambda>x. if P x then f x else []) xs) = concat (map f (filter P xs))"
  by (induction xs) simp_all

lemma concat_map_single:
  "concat (map (\<lambda>x. if P x then [f x] else []) xs) = map f (filter P xs)"
  by (induction xs) simp_all

lemma header_no_download: "filter is_download_line (script_header config) = []"
  by (simp add: script_header_def is_download_line_def startswith_def sq_def)

lemma echo_no_download: "\<not> is_download_line (echo_line m)"
  by (simp add: echo_line_def is_download_line_def startswith_def)

lemma wget_is_download: "is_download_line (wget_line config m)"
  by (simp add: wget_line_def is_download_line_def startswith_def)

lemma completion_no_download: "\<not> is_download_line completion_line"
  by (simp add: completion_line_def is_download_line_def startswith_def)

lemma download_lines_of_model:
  "filter is_download_line (model_lines config m) =
     (if startswith (url m) ''http'' then [wget_line config m] else [])"
  by (simp add: model_lines_cases echo_no_download wget_is_download)

lemma download_lines_of_script:
  "filter is_download_line (script_lines config) =
     map (wget_line config) (filter (\<lambda>m. startswith (url m) ''http'') (models config))"
  by (simp add: script_lines_structure header_no_download completion_no_download
      filter_concat comp_def download_lines_of_model concat_map_single)

lemma wget_args_cases:
  "wget_args config m =
     (if str_contains ''huggingface.co'' (url m) \<and> str_truthy (hf_token config)
      then ''--header='Authorization: Bearer '' @ the (hf_token config) @ sq else [])"
  by (simp add: wget_args_def split: option.splits)

lemma str_join_snoc:
  "xs \<noteq> [] \<Longrightarrow> str_join sep (xs @ [x]) = str_join sep xs @ sep @ x"
  by (induction sep xs rule: str_join.induct) simp_all

lemma header_nonempty: "script_header config \<noteq> []"
  by (simp add: script_header_def)

lemma http_scheme_imp_prefix: "spec_uses_http_scheme u \<Longrightarrow> startswith u ''http''"
proof -
  assume "spec_uses_http_scheme u"
  then have "prefix ''http://'' u \<or> prefix ''https://'' u"
    by (simp add: spec_uses_http_scheme_def startswith_prefix)
  moreover have "prefix ''http'' ''http://''" and "prefix ''http'' ''https://''"
    by simp_all
  ultimately have "prefix ''http'' u"
    using prefix_order.trans by blast
  then show ?thesis by (simp add: startswith_prefix)
qed

lemma wget_line_target:
  "suffix ('' -O '' @ sq @ ''models/'' @ install_path m @ ''/'' @ name m @ sq
            @ '' '' @ sq @ url m @ sq) (wget_line config m)"
proof -
  have "wget_line config m = (''wget '' @ wget_args config m) @
      ('' -O '' @ sq @ ''models/'' @ install_path m @ ''/'' @ name m @ sq
            @ '' '' @ sq @ url m @ sq)"
    by (simp add: wget_line_def)
  then show ?thesis by (rule suffixI)
qed

lemma script_lines_valid_models:
  "script_lines config =
     script_header config
     @ concat (map (\<lambda>m. [echo_line m, wget_line config m])
         (filter (\<lambda>m. startswith (url m) ''http'') (models config)))
     @ [completion_line]"
proof -
  have "model_lines config = (\<lambda>m. if startswith (url m) ''http''
        then [echo_line m, wget_line config m] else [])"
    by (rule ext) (rule model_lines_cases)
  then show ?thesis
    by (simp only: script_lines_structure concat_map_if)
qed

lemma split_lines_one_line:
  "CHR ''\<newline>'' \<notin> set x \<Longrightarrow> split_lines x = [x]"
  by (induction x) auto

lemma split_lines_first:
  "CHR ''\<newline>'' \<notin> set x \<Longrightarrow> split_lines (x @ CHR ''\<newline>'' # rest) = x # split_lines rest"
  by (induction x) auto

lemma split_lines_join:
  "xs \<noteq> [] \<Longrightarrow> \<forall>x \<in> set xs. CHR ''\<newline>'' \<notin> set x \<Longrightarrow>
     split_lines (str_join ''\<newline>'' xs) = xs"
proof (induction "''\<newline>''" xs rule: str_join.induct)
  case 1
  then show ?case by simp
next
  case (2 x)
  then show ?case by (simp add: split_lines_one_line)
next
  case (3 x y ys)
  then show ?case by (simp add: split_lines_first)
qed

lemma script_text_lines:
  "\<forall>l \<in> set (script_lines config). CHR ''\<newline>'' \<notin> set l \<Longrightarrow>
     split_lines (generate_setup_script config) = script_lines config"
  unfolding generate_setup_script_def
  by (rule split_lines_join) (simp_all add: script_lines_def)

section \<open>The returned text\<close>

text \<open>The text is the join of the header, one pair per passing model and the completion.\<close>

lemma script_text_valid_models:
  "generate_setup_script config =
     str_join ''\<newline>''
       (script_header config
        @ concat (map (\<lambda>m. [echo_line m, wget_line config m])
            (filter (\<lambda>m. startswith (url m) ''http'') (models config)))
        @ [completion_line])"
  by (simp only: generate_setup_script_def script_lines_valid_models)

lemma header_one_line:
  assumes "one_line (comfyui_repo config)" and "one_line (comfyui_manager_repo config)"
  shows "\<forall>l \<in> set (script_header config). CHR ''\<newline>'' \<notin> set l"
  using assms by (simp add: script_header_def one_line_def sq_def)

lemma wget_args_one_line:
  assumes "case hf_token config of None \<Rightarrow> True | Some tok \<Rightarrow> one_line tok"
  shows "CHR ''\<newline>'' \<notin> set (wget_args config m)"
  using assms by (simp add: wget_args_def one_line_def sq_def split: option.splits)

lemma model_pair_one_line:
  assumes "case hf_token config of None \<Rightarrow> True | Some tok \<Rightarrow> one_line tok"
    and "one_line (name m) \<and> one_line (url m) \<and> one_line (install_path m)"
  shows "CHR ''\<newline>'' \<notin> set (echo_line m) \<and> CHR ''\<newline>'' \<notin> set (wget_line config m)"
  using assms(2) wget_args_one_line [OF assms(1), of m]
  by (simp add: echo_line_def wget_line_def one_line_def sq_def)

lemma script_lines_one_line:
  assumes "single_line_fields config"
  shows "\<forall>l \<in> set (script_lines config). CHR ''\<newline>'' \<notin> set l"
proof -
  from assms have repos: "one_line (comfyui_repo config)" "one_line (comfyui_manager_repo config)"
    and tok: "case hf_token config of None \<Rightarrow> True | Some tok \<Rightarrow> one_line tok"
    and fields: "\<forall>m \<in> set (filter (\<lambda>m. startswith (url m) ''http'') (models config)).
        one_line (name m) \<and> one_line (url m) \<and> one_line (install_path m)"
    by (simp_all add: single_line_fields_def list_all_iff)
  have pairs: "\<forall>m \<in> set (filter (\<lambda>m. startswith (url m) ''http'') (models config)).
      CHR ''\<newline>'' \<notin> set (echo_line m) \<and> CHR ''\<newline>'' \<notin> set (wget_line config m)"
    using fields model_pair_one_line [OF tok] by blast
  have compl: "CHR ''\<newline>'' \<notin> set completion_line"
    by (simp add: completion_line_def sq_def)
  show ?thesis
  proof
    fix l assume "l \<in> set (script_lines config)"
    then consider "l \<in> set (script_header config)"
      | m where "m \<in> set (filter (\<lambda>m. startswith (url m) ''http'') (models config))"
          "l = echo_line m \<or> l = wget_line config m"
      | "l = completion_line"
      by (auto simp: script_lines_valid_models)
    then show "CHR ''\<newline>'' \<notin> set l"
    proof cases
      case 1
      with header_one_line [OF repos] show ?thesis by blast
    next
      case 2
      with pairs show ?thesis by blast
    next
      case 3
      with compl show ?thesis by simp
    qed
  qed
qed

lemma text_lines:
  "single_line_fields config \<Longrightarrow>
     split_lines (generate_setup_script config) = script_lines config"
  by (rule script_text_lines) (rule script_lines_one_line)

lemma text_download_lines:
  "single_line_fields config \<Longrightarrow>
     filter is_download_line (split_lines (generate_setup_script config)) =
       map (wget_line config) (filter (\<lambda>m. startswith (url m) ''http'') (models config))"
  by (simp only: text_lines download_lines_of_script)

text \<open>Every entry of a joined list, and every run of entries, is part of the text.\<close>

lemma sublist_extend: "sublist xs ys \<Longrightarrow> sublist xs (ps @ ys @ ss)"
proof -
  assume "sublist xs ys"
  then obtain a b where "ys = a @ xs @ b"
    unfolding sublist_def by blast
  then have "ps @ ys @ ss = (ps @ a) @ xs @ (b @ ss)"
    by simp
  then show ?thesis
    unfolding sublist_def by blast
qed

lemma str_join_append:
  "xs \<noteq> [] \<Longrightarrow> ys \<noteq> [] \<Longrightarrow>
     str_join sep (xs @ ys) = str_join sep xs @ sep @ str_join sep ys"
proof (induction sep xs rule: str_join.induct)
  case (1 sep)
  then show ?case by simp
next
  case (2 sep x)
  then show ?case by (cases ys) simp_all
next
  case (3 sep x y zs)
  then show ?case by simp
qed

lemma entry_in_text: "x \<in> set xs \<Longrightarrow> sublist x (str_join sep xs)"
proof (induction sep xs rule: str_join.induct)
  case (1 sep)
  then show ?case by simp
next
  case (2 sep y)
  then show ?case by simp
next
  case (3 sep y z zs)
  show ?case
  proof (cases "x = y")
    case True
    then show ?thesis by simp
  next
    case False
    with 3 have "sublist x (str_join sep (z # zs))" by simp
    then have "sublist x ((y @ sep) @ str_join sep (z # zs) @ [])"
      by (rule sublist_extend)
    then show ?thesis by simp
  qed
qed

lemma run_in_text:
  assumes "ps \<noteq> []" and "ys \<noteq> []" and "ss \<noteq> []"
  shows "sublist (sep @ str_join sep ys @ sep) (str_join sep (ps @ ys @ ss))"
proof -
  from assms have "str_join sep (ps @ ys @ ss) =
      str_join sep ps @ (sep @ str_join sep ys @ sep) @ str_join sep ss"
    by (simp add: str_join_append)
  then show ?thesis
    unfolding sublist_def by blast
qed

section \<open>Download lines of the returned text\<close>

lemma script_lines_models_update:
  "script_lines (config\<lparr>models := ms\<rparr>) =
     script_header config
     @ concat (map (\<lambda>m. [echo_line m, wget_line config m])
         (filter (\<lambda>m. startswith (url m) ''http'') ms))
     @ [completion_line]"
proof -
  have "script_header (config\<lparr>models := ms\<rparr>) = script_header config"
    by (simp add: script_header_def)
  moreover have "wget_line (config\<lparr>models := ms\<rparr>) = wget_line config"
    by (intro ext) (simp add: wget_line_def wget_args_def)
  ultimately show ?thesis
    by (simp add: script_lines_valid_models)
qed

lemma failing_model_leaves_text:
  assumes "models config = pre @ m # post" and "\<not> startswith (url m) ''http''"
  shows "generate_setup_script config = generate_setup_script (config\<lparr>models := pre @ post\<rparr>)"
proof -
  from assms have "filter (\<lambda>m. startswith (url m) ''http'') (models config) =
      filter (\<lambda>m. startswith (url m) ''http'') (pre @ post)"
    by simp
  then have "script_lines config = script_lines (config\<lparr>models := pre @ post\<rparr>)"
    unfolding script_lines_models_update
    by (simp only: script_lines_valid_models)
  then show ?thesis
    by (simp only: generate_setup_script_def)
qed

lemma passing_model_in_text:
  assumes "m \<in> set (models config)" and "startswith (url m) ''http''"
  shows "sublist (wget_line config m) (generate_setup_script config)"
proof -
  from assms have "wget_line config m \<in> set (script_lines config)"
    by (auto simp: script_lines_valid_models)
  then show ?thesis
    unfolding generate_setup_script_def by (rule entry_in_text)
qed

text \<open>
  Claim C2, as stated, at a model whose URL \<open>httpx://example.com/n.bin\<close> does not use
  the HTTP or HTTPS scheme: the returned text has a download line for it. And with a line
  break in another model's name, the text has the download line of a model whose URL is
  a local path.
\<close>

theorem download_line_non_http_scheme_counterexample:
  "httpx_model \<in> set (models httpx_config) \<and>
   \<not> spec_uses_http_scheme (url httpx_model) \<and>
   filter is_download_line (split_lines (generate_setup_script httpx_config)) =
     [''wget  -O 'models/checkpoints/n.bin' 'httpx://example.com/n.bin'' @ sq] \<and>
   local_model \<in> set (models carrier_config) \<and>
   \<not> startswith (url local_model) ''http'' \<and>
   wget_line carrier_config local_model = ''wget  -O 'models/loras/l.pt' '/tmp/l.pt'' @ sq \<and>
   wget_line carrier_config local_model
     \<in> set (split_lines (generate_setup_script carrier_config))"
  by code_simp

text \<open>
  Claim C2, amended: a model whose URL does not start with the four characters
  \<open>http\<close> leaves the returned text as it is without that model; the download line of
  a model whose URL starts with \<open>http\<close> is part of the text; and when no field that
  enters the script holds a line break, the download lines of the text are, in order,
  the lines of the models whose URL starts with \<open>http\<close>. Every URL with an HTTP(S)
  scheme starts so.
\<close>

theorem text_download_line_iff_http_prefix:
  "(models config = pre @ m # post \<and> \<not> startswith (url m) ''http'' \<longrightarrow>
      generate_setup_script config = generate_setup_script (config\<lparr>models := pre @ post\<rparr>)) \<and>
   (m \<in> set (models config) \<and> startswith (url m) ''http'' \<longrightarrow>
      sublist (wget_line config m) (generate_setup_script config)) \<and>
   (single_line_fields config \<longrightarrow>
      filter is_download_line (split_lines (generate_setup_script config)) =
        map (wget_line config) (filter (\<lambda>m. startswith (url m) ''http'') (models config))) \<and>
   (spec_uses_http_scheme (url m) \<longrightarrow> startswith (url m) ''http'')"
  using failing_model_leaves_text passing_model_in_text text_download_lines
    http_scheme_imp_prefix
  by blast

theorem text_download_line_iff_http_prefix_witness:
  "models dup_config = [dup_model] @ local_model # [dup_model] \<and>
   \<not> startswith (url local_model) ''http'' \<and>
   generate_setup_script dup_config =
     generate_setup_script (dup_config\<lparr>models := [dup_model] @ [dup_model]\<rparr>) \<and>
   dup_model \<in> set (models dup_config) \<and>
   startswith (url dup_model) ''http'' \<and>
   sublist (''wget  -O 'models/vae/d.pt' 'http://example.com/d.pt'' @ sq)
     (generate_setup_script dup_config) \<and>
   single_line_fields dup_config \<and>
   filter is_download_line (split_lines (generate_setup_script dup_config)) =
     [''wget  -O 'models/vae/d.pt' 'http://example.com/d.pt'' @ sq,
      ''wget  -O 'models/vae/d.pt' 'http://example.com/d.pt'' @ sq] \<and>
   spec_uses_http_scheme (url dup_model)"
proof -
  have h1: "models dup_config = [dup_model] @ local_model # [dup_model] \<and>
      \<not> startswith (url local_model) ''http''"
    by code_simp
  have h2: "dup_model \<in> set (models dup_config) \<and> startswith (url dup_model) ''http''"
    by code_simp
  have h3: "single_line_fields dup_config" by code_simp
  have h4: "spec_uses_http_scheme (url dup_model)" by code_simp
  have w: "wget_line dup_config dup_model =
      ''wget  -O 'models/vae/d.pt' 'http://example.com/d.pt'' @ sq"
    by code_simp
  have ws: "map (wget_line dup_config)
        (filter (\<lambda>m. startswith (url m) ''http'') (models dup_config)) =
     [''wget  -O 'models/vae/d.pt' 'http://example.com/d.pt'' @ sq,
      ''wget  -O 'models/vae/d.pt' 'http://example.com/d.pt'' @ sq]"
    by code_simp
  note t = text_download_line_iff_http_prefix
  from h1 t [of dup_config "[dup_model]" local_model "[dup_model]"]
  have c1: "generate_setup_script dup_config =
     generate_setup_script (dup_config\<lparr>models := [dup_model] @ [dup_model]\<rparr>)"
    by blast
  from h2 t [of dup_config "[dup_model]" dup_model "[dup_model]"]
  have "sublist (wget_line dup_config dup_model) (generate_setup_script dup_config)"
    by blast
  then have c2: "sublist (''wget  -O 'models/vae/d.pt' 'http://example.com/d.pt'' @ sq)
     (generate_setup_script dup_config)"
    by (simp only: w)
  from h3 t [of dup_config "[dup_model]" dup_model "[dup_model]"]
  have "filter is_download_line (split_lines (generate_setup_script dup_config)) =
      map (wget_line dup_config)
        (filter (\<lambda>m. startswith (url m) ''http'') (models dup_config))"
    by blast
  then have c3: "filter is_download_line (split_lines (generate_setup_script dup_config)) =
     [''wget  -O 'models/vae/d.pt' 'http://example.com/d.pt'' @ sq,
      ''wget  -O 'models/vae/d.pt' 'http://example.com/d.pt'' @ sq]"
    by (simp only: ws)
  from h1 h2 h3 h4 c1 c2 c3 show ?thesis by (intro conjI) blast+
qed

text \<open>
  Claim C7, as stated, at two inputs: a configuration with no model of an HTTP(S) scheme
  has one download step (the URL \<open>httpx://example.com/n.bin\<close> passes the check), and a
  configuration with one model, whose name holds a line break, has three download lines
  in the returned text.
\<close>

theorem download_steps_counterexample:
  "filter (\<lambda>m. spec_uses_http_scheme (url m)) (models httpx_config) = [] \<and>
   length (filter is_download_line (split_lines (generate_setup_script httpx_config))) = 1 \<and>
   length (models break_config) = 1 \<and>
   length (filter is_download_line (split_lines (generate_setup_script break_config))) = 3"
  by code_simp

text \<open>
  Claim C7, amended: the returned text is the join of the header, one step (progress
  echo, download line) per model whose URL starts with \<open>http\<close>, in the order of
  \<open>config.models\<close>, and the completion echo. When no field that enters the script holds a
  line break, the lines of the text are these entries, so its download lines are one per
  such model, in order, entries of the same name each with a line of their own; every
  download line ends with the target \<open>models/<install_path>/<name>\<close> and the URL. In
  scenario 2 the only download line of the text targets
  \<open>models/checkpoints/a.safetensors\<close> with a header embedding \<open>tok\<close>.
\<close>

theorem text_download_steps_in_order:
  "generate_setup_script config =
     str_join ''\<newline>''
       (script_header config
        @ concat (map (\<lambda>m. [echo_line m, wget_line config m])
            (filter (\<lambda>m. startswith (url m) ''http'') (models config)))
        @ [completion_line]) \<and>
   (single_line_fields config \<longrightarrow>
      split_lines (generate_setup_script config) =
        script_header config
        @ concat (map (\<lambda>m. [echo_line m, wget_line config m])
            (filter (\<lambda>m. startswith (url m) ''http'') (models config)))
        @ [completion_line] \<and>
      filter is_download_line (split_lines (generate_setup_script config)) =
        map (wget_line config) (filter (\<lambda>m. startswith (url m) ''http'') (models config)) \<and>
      length (filter is_download_line (split_lines (generate_setup_script config))) =
        length (filter (\<lambda>m. startswith (url m) ''http'') (models config))) \<and>
   suffix ('' -O '' @ sq @ ''models/'' @ install_path m @ ''/'' @ name m @ sq
            @ '' '' @ sq @ url m @ sq) (wget_line config m) \<and>
   filter is_download_line (split_lines (generate_setup_script scenario2_config)) =
     [''wget --header='Authorization: Bearer tok' -O 'models/checkpoints/a.safetensors' 'https://huggingface.co/x/a.safetensors'' @ sq]"
proof (intro conjI impI)
  show "generate_setup_script config =
     str_join ''\<newline>''
       (script_header config
        @ concat (map (\<lambda>m. [echo_line m, wget_line config m])
            (filter (\<lambda>m. startswith (url m) ''http'') (models config)))
        @ [completion_line])"
    by (rule script_text_valid_models)
  show "suffix ('' -O '' @ sq @ ''models/'' @ install_path m @ ''/'' @ name m @ sq
            @ '' '' @ sq @ url m @ sq) (wget_line config m)"
    by (rule wget_line_target)
  show "filter is_download_line (split_lines (generate_setup_script scenario2_config)) =
     [''wget --header='Authorization: Bearer tok' -O 'models/checkpoints/a.safetensors' 'https://huggingface.co/x/a.safetensors'' @ sq]"
    by code_simp
next
  assume "single_line_fields config"
  then show "split_lines (generate_setup_script config) =
        script_header config
        @ concat (map (\<lambda>m. [echo_line m, wget_line config m])
            (filter (\<lambda>m. startswith (url m) ''http'') (models config)))
        @ [completion_line]"
    by (simp only: text_lines script_lines_valid_models)
next
  assume "single_line_fields config"
  then show "filter is_download_line (split_lines (generate_setup_script config)) =
        map (wget_line config) (filter (\<lambda>m. startswith (url m) ''http'') (models config))"
    by (rule text_download_lines)
next
  assume "single_line_fields config"
  then show "length (filter is_download_line (split_lines (generate_setup_script config))) =
        length (filter (\<lambda>m. startswith (url m) ''http'') (models config))"
    by (simp only: text_download_lines length_map)
qed

theorem text_download_steps_in_order_witness:
  "single_line_fields dup_config \<and>
   length (filter (\<lambda>m. startswith (url m) ''http'') (models dup_config)) = 2 \<and>
   filter is_download_line (split_lines (generate_setup_script dup_config)) =
     [''wget  -O 'models/vae/d.pt' 'http://example.com/d.pt'' @ sq,
      ''wget  -O 'models/vae/d.pt' 'http://example.com/d.pt'' @ sq] \<and>
   length (filter is_download_line (split_lines (generate_setup_script dup_config))) = 2"
proof -
  have h: "single_line_fields dup_config" by code_simp
  have n: "length (filter (\<lambda>m. startswith (url m) ''http'') (models dup_config)) = 2"
    by code_simp
  have ws: "map (wget_line dup_config)
        (filter (\<lambda>m. startswith (url m) ''http'') (models dup_config)) =
     [''wget  -O 'models/vae/d.pt' 'http://example.com/d.pt'' @ sq,
      ''wget  -O 'models/vae/d.pt' 'http://example.com/d.pt'' @ sq]"
    by code_simp
  note t = text_download_steps_in_order [of dup_config dup_model, THEN conjunct2,
      THEN conjunct1, rule_format, OF h]
  from t have "filter is_download_line (split_lines (generate_setup_script dup_config)) =
      map (wget_line dup_config)
        (filter (\<lambda>m. startswith (url m) ''http'') (models dup_config))"
    by blast
  then have c1: "filter is_download_line (split_lines (generate_setup_script dup_config)) =
     [''wget  -O 'models/vae/d.pt' 'http://example.com/d.pt'' @ sq,
      ''wget  -O 'models/vae/d.pt' 'http://example.com/d.pt'' @ sq]"
    by (simp only: ws)
  from t have "length (filter is_download_line (split_lines (generate_setup_script dup_config))) =
      length (filter (\<lambda>m. startswith (url m) ''http'') (models dup_config))"
    by blast
  then have c2: "length (filter is_download_line
      (split_lines (generate_setup_script dup_config))) = 2"
    by (simp only: n)
  from h n c1 c2 show ?thesis by (intro conjI)
qed

section \<open>Frame of the returned text\<close>

lemma script_text_begin:
  "generate_setup_script config =
     (''#!/bin/bash'' @ ''\<newline>'' @ ''set -e'' @ ''\<newline>'')
       @ str_join ''\<newline>'' (drop 2 (script_lines config))"
  by (simp add: generate_setup_script_def script_lines_structure script_header_def)

lemma script_text_end:
  "generate_setup_script config =
     str_join ''\<newline>''
       (script_header config @ concat (map (model_lines config) (models config)))
       @ ''\<newline>'' @ completion_line"
proof -
  have front: "script_header config @ concat (map (model_lines config) (models config)) \<noteq> []"
    by (simp add: header_nonempty)
  have "script_lines config =
      (script_header config @ concat (map (model_lines config) (models config)))
        @ [completion_line]"
    by (simp add: script_lines_structure)
  then show ?thesis
    unfolding generate_setup_script_def
    by (simp only: str_join_snoc [OF front])
qed

lemma app_clone_in_text:
  "sublist
     (''\<newline>'' @ ''if [ ! -d 'ComfyUI' ]; then'' @ ''\<newline>'' @ ''  git clone '' @ comfyui_repo config
        @ ''\<newline>'' @ ''fi'' @ ''\<newline>'' @ ''cd ComfyUI'' @ ''\<newline>''
        @ ''pip install -r requirements.txt'' @ ''\<newline>'')
     (generate_setup_script config)"
proof -
  define ps :: "string list" where
    "ps = [''#!/bin/bash'', ''set -e'', ''echo 'Starting ComfyUI Provisioning...'' @ sq,
           ''cd /workspace'', [], ''# Install ComfyUI'']"
  define ys where
    "ys = [''if [ ! -d 'ComfyUI' ]; then'', ''  git clone '' @ comfyui_repo config, ''fi'',
           ''cd ComfyUI'', ''pip install -r requirements.txt'']"
  define ss where "ss = drop 11 (script_lines config)"
  have parts: "script_lines config = ps @ ys @ ss"
    by (simp add: ps_def ys_def ss_def script_lines_structure script_header_def)
  have "ps \<noteq> []" and "ys \<noteq> []"
    by (simp_all add: ps_def ys_def)
  moreover have "ss \<noteq> []"
    by (simp add: ss_def script_lines_structure script_header_def)
  ultimately have "sublist (''\<newline>'' @ str_join ''\<newline>'' ys @ ''\<newline>'')
      (str_join ''\<newline>'' (ps @ ys @ ss))"
    by (rule run_in_text)
  moreover have "str_join ''\<newline>'' ys =
      ''if [ ! -d 'ComfyUI' ]; then'' @ ''\<newline>'' @ ''  git clone '' @ comfyui_repo config
        @ ''\<newline>'' @ ''fi'' @ ''\<newline>'' @ ''cd ComfyUI'' @ ''\<newline>''
        @ ''pip install -r requirements.txt''"
    by (simp add: ys_def)
  ultimately show ?thesis
    unfolding generate_setup_script_def parts by simp
qed

lemma manager_clone_in_text:
  "sublist
     (''\<newline>'' @ ''cd custom_nodes'' @ ''\<newline>'' @ ''if [ ! -d 'ComfyUI-Manager' ]; then''
        @ ''\<newline>'' @ ''  git clone '' @ comfyui_manager_repo config @ ''\<newline>'' @ ''fi''
        @ ''\<newline>'')
     (generate_setup_script config)"
proof -
  define ps where "ps = take 13 (script_header config)"
  define ys where
    "ys = [''cd custom_nodes'', ''if [ ! -d 'ComfyUI-Manager' ]; then'',
           ''  git clone '' @ comfyui_manager_repo config, ''fi'']"
  define ss where "ss = drop 17 (script_lines config)"
  have parts: "script_lines config = ps @ ys @ ss"
    by (simp add: ps_def ys_def ss_def script_lines_structure script_header_def)
  have "ps \<noteq> []" and "ys \<noteq> []"
    by (simp_all add: ps_def ys_def script_header_def)
  moreover have "ss \<noteq> []"
    by (simp add: ss_def script_lines_structure script_header_def)
  ultimately have "sublist (''\<newline>'' @ str_join ''\<newline>'' ys @ ''\<newline>'')
      (str_join ''\<newline>'' (ps @ ys @ ss))"
    by (rule run_in_text)
  moreover have "str_join ''\<newline>'' ys =
      ''cd custom_nodes'' @ ''\<newline>'' @ ''if [ ! -d 'ComfyUI-Manager' ]; then''
        @ ''\<newline>'' @ ''  git clone '' @ comfyui_manager_repo config @ ''\<newline>'' @ ''fi''"
    by (simp add: ys_def)
  ultimately show ?thesis
    unfolding generate_setup_script_def parts by simp
qed

lemma no_models_text:
  assumes "models config = []"
  shows "generate_setup_script config =
     str_join ''\<newline>''
       [''#!/bin/bash'',
        ''set -e'',
        ''echo 'Starting ComfyUI Provisioning...'' @ sq,
        ''cd /workspace'',
        [],
        ''# Install ComfyUI'',
        ''if [ ! -d 'ComfyUI' ]; then'',
        ''  git clone '' @ comfyui_repo config,
        ''fi'',
        ''cd ComfyUI'',
        ''pip install -r requirements.txt'',
        [],
        ''# Install Manager'',
        ''cd custom_nodes'',
        ''if [ ! -d 'ComfyUI-Manager' ]; then'',
        ''  git clone '' @ comfyui_manager_repo config,
        ''fi'',
        ''cd ..'',
        [],
        ''# Download Models'',
        ''echo 'Provisioning Complete!'' @ sq]"
proof -
  from assms have "script_lines config = script_header config @ [completion_line]"
    by (simp add: script_lines_def)
  then show ?thesis
    unfolding generate_setup_script_def
    by (simp only: script_header_def completion_line_def append.simps)
qed

lemma no_models_lines:
  assumes "models config = []"
    and "one_line (comfyui_repo config)" and "one_line (comfyui_manager_repo config)"
  shows "split_lines (generate_setup_script config) = script_header config @ [completion_line]"
    and "filter is_download_line (split_lines (generate_setup_script config)) = []"
proof -
  from assms(1) have lines: "script_lines config = script_header config @ [completion_line]"
    by (simp add: script_lines_def)
  have "\<forall>l \<in> set (script_lines config). CHR ''\<newline>'' \<notin> set l"
    using header_one_line [OF assms(2,3)]
    by (auto simp: lines completion_line_def sq_def)
  then have same: "split_lines (generate_setup_script config) = script_lines config"
    by (rule script_text_lines)
  with lines same show "split_lines (generate_setup_script config) =
      script_header config @ [completion_line]"
    by simp
  from assms(1) have "filter is_download_line (script_lines config) = []"
    by (simp add: download_lines_of_script)
  with same show "filter is_download_line (split_lines (generate_setup_script config)) = []"
    by simp
qed

text \<open>
  Claim C8, as stated, at a configuration with no models whose application repository
  URL holds a line break: the returned text has a download line.
\<close>

theorem zero_download_lines_counterexample:
  "models break_repo_config = [] \<and>
   filter is_download_line (split_lines (generate_setup_script break_repo_config)) =
     [''wget http://other.example/b.bin'']"
  by code_simp

text \<open>
  Claim C8, amended: for every configuration the returned text begins with the shebang
  line followed by \<open>set -e\<close>, contains the clone-if-absent step of the application with
  the dependency installation and the clone-if-absent step of the manager extension, and
  ends with the completion echo. With an empty model list the text is the header followed
  by the completion echo; if moreover neither repository URL holds a line break, its
  lines are these entries and none of them is a download line.
\<close>

theorem text_script_frame:
  "prefix (''#!/bin/bash'' @ ''\<newline>'' @ ''set -e'' @ ''\<newline>'') (generate_setup_script config) \<and>
   sublist
     (''\<newline>'' @ ''if [ ! -d 'ComfyUI' ]; then'' @ ''\<newline>'' @ ''  git clone '' @ comfyui_repo config
        @ ''\<newline>'' @ ''fi'' @ ''\<newline>'' @ ''cd ComfyUI'' @ ''\<newline>''
        @ ''pip install -r requirements.txt'' @ ''\<newline>'')
     (generate_setup_script config) \<and>
   sublist
     (''\<newline>'' @ ''cd custom_nodes'' @ ''\<newline>'' @ ''if [ ! -d 'ComfyUI-Manager' ]; then''
        @ ''\<newline>'' @ ''  git clone '' @ comfyui_manager_repo config @ ''\<newline>'' @ ''fi''
        @ ''\<newline>'')
     (generate_setup_script config) \<and>
   suffix (''\<newline>'' @ ''echo 'Provisioning Complete!'' @ sq) (generate_setup_script config) \<and>
   (models config = [] \<longrightarrow>
      generate_setup_script config =
        str_join ''\<newline>''
          [''#!/bin/bash'',
           ''set -e'',
           ''echo 'Starting ComfyUI Provisioning...'' @ sq,
           ''cd /workspace'',
           [],
           ''# Install ComfyUI'',
           ''if [ ! -d 'ComfyUI' ]; then'',
           ''  git clone '' @ comfyui_repo config,
           ''fi'',
           ''cd ComfyUI'',
           ''pip install -r requirements.txt'',
           [],
           ''# Install Manager'',
           ''cd custom_nodes'',
           ''if [ ! -d 'ComfyUI-Manager' ]; then'',
           ''  git clone '' @ comfyui_manager_repo config,
           ''fi'',
           ''cd ..'',
           [],
           ''# Download Models'',
           ''echo 'Provisioning Complete!'' @ sq]) \<and>
   (models config = [] \<and> one_line (comfyui_repo config) \<and>
    one_line (comfyui_manager_repo config) \<longrightarrow>
      split_lines (generate_setup_script config) = script_header config @ [completion_line] \<and>
      filter is_download_line (split_lines (generate_setup_script config)) = [])"
proof (intro conjI impI)
  show "prefix (''#!/bin/bash'' @ ''\<newline>'' @ ''set -e'' @ ''\<newline>'') (generate_setup_script config)"
    by (subst script_text_begin) (rule prefixI, rule refl)
  show "sublist
     (''\<newline>'' @ ''if [ ! -d 'ComfyUI' ]; then'' @ ''\<newline>'' @ ''  git clone '' @ comfyui_repo config
        @ ''\<newline>'' @ ''fi'' @ ''\<newline>'' @ ''cd ComfyUI'' @ ''\<newline>''
        @ ''pip install -r requirements.txt'' @ ''\<newline>'')
     (generate_setup_script config)"
    by (rule app_clone_in_text)
  show "sublist
     (''\<newline>'' @ ''cd custom_nodes'' @ ''\<newline>'' @ ''if [ ! -d 'ComfyUI-Manager' ]; then''
        @ ''\<newline>'' @ ''  git clone '' @ comfyui_manager_repo config @ ''\<newline>'' @ ''fi''
        @ ''\<newline>'')
     (generate_setup_script config)"
    by (rule manager_clone_in_text)
  show "suffix (''\<newline>'' @ ''echo 'Provisioning Complete!'' @ sq) (generate_setup_script config)"
    by (subst script_text_end) (simp only: completion_line_def, rule suffixI, rule refl)
next
  assume "models config = []"
  then show "generate_setup_script config =
        str_join ''\<newline>''
          [''#!/bin/bash'',
           ''set -e'',
           ''echo 'Starting ComfyUI Provisioning...'' @ sq,
           ''cd /workspace'',
           [],
           ''# Install ComfyUI'',
           ''if [ ! -d 'ComfyUI' ]; then'',
           ''  git clone '' @ comfyui_repo config,
           ''fi'',
           ''cd ComfyUI'',
           ''pip install -r requirements.txt'',
           [],
           ''# Install Manager'',
           ''cd custom_nodes'',
           ''if [ ! -d 'ComfyUI-Manager' ]; then'',
           ''  git clone '' @ comfyui_manager_repo config,
           ''fi'',
           ''cd ..'',
           [],
           ''# Download Models'',
           ''echo 'Provisioning Complete!'' @ sq]"
    by (rule no_models_text)
next
  assume "models config = [] \<and> one_line (comfyui_repo config) \<and>
    one_line (comfyui_manager_repo config)"
  then show "split_lines (generate_setup_script config) =
      script_header config @ [completion_line]"
    using no_models_lines(1) by blast
next
  assume "models config = [] \<and> one_line (comfyui_repo config) \<and>
    one_line (comfyui_manager_repo config)"
  then show "filter is_download_line (split_lines (generate_setup_script config)) = []"
    using no_models_lines(2) by blast
qed

theorem text_script_frame_witness:
  "models base_config = [] \<and>
   one_line (comfyui_repo base_config) \<and>
   one_line (comfyui_manager_repo base_config) \<and>
   filter is_download_line (split_lines (generate_setup_script base_config)) = [] \<and>
   split_lines (generate_setup_script base_config) =
     [''#!/bin/bash'',
      ''set -e'',
      ''echo 'Starting ComfyUI Provisioning...'' @ sq,
      ''cd /workspace'',
      [],
      ''# Install ComfyUI'',
      ''if [ ! -d 'ComfyUI' ]; then'',
      ''  git clone https://github.com/comfyanonymous/ComfyUI'',
      ''fi'',
      ''cd ComfyUI'',
      ''pip install -r requirements.txt'',
      [],
      ''# Install Manager'',
      ''cd custom_nodes'',
      ''if [ ! -d 'ComfyUI-Manager' ]; then'',
      ''  git clone https://github.com/ltdrdata/ComfyUI-Manager.git'',
      ''fi'',
      ''cd ..'',
      [],
      ''# Download Models'',
      ''echo 'Provisioning Complete!'' @ sq]"
proof -
  have h: "models base_config = [] \<and> one_line (comfyui_repo base_config) \<and>
      one_line (comfyui_manager_repo base_config)"
    by code_simp
  note t = text_script_frame [of base_config, THEN conjunct2, THEN conjunct2, THEN conjunct2,
      THEN conjunct2, THEN conjunct2, rule_format, OF h]
  from t have a: "split_lines (generate_setup_script base_config) =
      script_header base_config @ [completion_line]"
    and b: "filter is_download_line (split_lines (generate_setup_script base_config)) = []"
    by blast+
  have "script_header base_config @ [completion_line] =
     [''#!/bin/bash'',
      ''set -e'',
      ''echo 'Starting ComfyUI Provisioning...'' @ sq,
      ''cd /workspace'',
      [],
      ''# Install ComfyUI'',
      ''if [ ! -d 'ComfyUI' ]; then'',
      ''  git clone https://github.com/comfyanonymous/ComfyUI'',
      ''fi'',
      ''cd ComfyUI'',
      ''pip install -r requirements.txt'',
      [],
      ''# Install Manager'',
      ''cd custom_nodes'',
      ''if [ ! -d 'ComfyUI-Manager' ]; then'',
      ''  git clone https://github.com/ltdrdata/ComfyUI-Manager.git'',
      ''fi'',
      ''cd ..'',
      [],
      ''# Download Models'',
      ''echo 'Provisioning Complete!'' @ sq]"
    by code_simp
  with a have c: "split_lines (generate_setup_script base_config) =
     [''#!/bin/bash'',
      ''set -e'',
      ''echo 'Starting ComfyUI Provisioning...'' @ sq,
      ''cd /workspace'',
      [],
      ''# Install ComfyUI'',
      ''if [ ! -d 'ComfyUI' ]; then'',
      ''  git clone https://github.com/comfyanonymous/ComfyUI'',
      ''fi'',
      ''cd ComfyUI'',
      ''pip install -r requirements.txt'',
      [],
      ''# Install Manager'',
      ''cd custom_nodes'',
      ''if [ ! -d 'ComfyUI-Manager' ]; then'',
      ''  git clone https://github.com/ltdrdata/ComfyUI-Manager.git'',
      ''fi'',
      ''cd ..'',
      [],
      ''# Download Models'',
      ''echo 'Provisioning Complete!'' @ sq]"
    by (rule trans)
  from h b c show ?thesis by (intro conjI) blast+
qed

section \<open>The authorization header\<close>

lemma str_contains_sublist: "str_contains needle hay \<longleftrightarrow> sublist needle hay"
  by (induction hay) (simp_all add: startswith_prefix sublist_Cons_right)

text \<open>The host of a URL is a part of the URL.\<close>

lemma after_scheme_suffix: "suffix (after_scheme u) u"
proof (induction u)
  case Nil
  then show ?case by simp
next
  case (Cons c cs)
  have "suffix (drop 3 (c # cs)) (c # cs)"
    by (rule suffix_drop)
  with Cons show ?case
    by (simp add: suffix_ConsI)
qed

lemma host_in_url: "sublist (spec_url_host u) u"
proof -
  define authority where "authority = takeWhile (\<lambda>c. c \<notin> set ''/?#'') (after_scheme u)"
  define hostport where "hostport = rev (takeWhile (\<lambda>c. c \<noteq> CHR ''@'') (rev authority))"
  have host: "spec_url_host u = takeWhile (\<lambda>c. c \<noteq> CHR '':'') hostport"
    by (simp add: spec_url_host_def authority_def hostport_def Let_def)
  have "prefix (takeWhile (\<lambda>c. c \<noteq> CHR ''@'') (rev authority)) (rev authority)"
    by (rule takeWhile_is_prefix)
  then have "suffix hostport authority"
    by (simp add: hostport_def suffix_to_prefix)
  have "sublist (spec_url_host u) hostport"
    unfolding host by (rule prefix_imp_sublist) (rule takeWhile_is_prefix)
  also have "sublist hostport authority"
    using \<open>suffix hostport authority\<close> by (rule suffix_imp_sublist)
  also have "sublist authority (after_scheme u)"
    unfolding authority_def by (rule prefix_imp_sublist) (rule takeWhile_is_prefix)
  also have "sublist (after_scheme u) u"
    using after_scheme_suffix by (rule suffix_imp_sublist)
  finally show ?thesis .
qed

lemma host_mentions_imp_url_mentions:
  assumes "spec_host_is_hugging_face m"
  shows "str_contains ''huggingface.co'' (url m)"
proof -
  from assms have "sublist ''huggingface.co'' (spec_url_host (url m))"
    by (simp add: spec_host_is_hugging_face_def str_contains_sublist)
  also have "sublist (spec_url_host (url m)) (url m)"
    by (rule host_in_url)
  finally show ?thesis
    by (simp add: str_contains_sublist)
qed

text \<open>With the header option after the command, the line contains it.\<close>

lemma header_line_has_header:
  "has_auth_header (''wget '' @ (''--header='Authorization: Bearer '' @ tok @ sq) @ rest)"
proof -
  have "''wget '' @ (''--header='Authorization: Bearer '' @ tok @ sq) @ rest =
      ''wget '' @ ''--header='Authorization:'' @ ('' Bearer '' @ tok @ sq @ rest)"
    by simp
  then have "sublist ''--header='Authorization:''
      (''wget '' @ (''--header='Authorization: Bearer '' @ tok @ sq) @ rest)"
    unfolding sublist_def by blast
  then show ?thesis
    by (simp only: has_auth_header_def str_contains_sublist)
qed

text \<open>
  A line with the header option has a quote followed by \<open>A\<close>; a download line without
  \<open>wget_args\<close> has none when the fields it quotes are free of quotes.
\<close>

lemma adjacent_mid: "adjacent a b (ps @ a # b # ss)"
proof (induction ps)
  case Nil
  then show ?case by simp
next
  case (Cons p ps)
  then show ?case by (cases ps) simp_all
qed

lemma adjacent_skip: "a \<notin> set xs \<Longrightarrow> adjacent a b (xs @ ys) = adjacent a b ys"
proof (induction xs)
  case Nil
  then show ?case by simp
next
  case (Cons x xs)
  then have rest: "adjacent a b (xs @ ys) = adjacent a b ys" and differ: "x \<noteq> a"
    by auto
  show ?case
  proof (cases "xs @ ys")
    case Nil
    then show ?thesis by simp
  next
    case (Cons y zs)
    with rest differ show ?thesis by simp
  qed
qed

lemma adjacent_other: "x \<noteq> a \<Longrightarrow> adjacent a b (x # ys) = adjacent a b ys"
  using adjacent_skip [of a "[x]" b ys] by simp

lemma header_imp_adjacent:
  assumes "has_auth_header l"
  shows "adjacent (CHR 0x27) CHR ''A'' l"
proof -
  from assms obtain ps ss where "l = ps @ ''--header='Authorization:'' @ ss"
    unfolding has_auth_header_def str_contains_sublist sublist_def by blast
  then have "l = (ps @ ''--header='') @ CHR 0x27 # CHR ''A'' # (''uthorization:'' @ ss)"
    by simp
  then show ?thesis
    by (simp only: adjacent_mid)
qed

lemma plain_line_no_header:
  assumes "quote_free (name m)" and "quote_free (install_path m)" and "quote_free (url m)"
    and "startswith (url m) ''http''"
  shows "\<not> has_auth_header
      (''wget  -O '' @ sq @ ''models/'' @ install_path m @ ''/'' @ name m @ sq
         @ '' '' @ sq @ url m @ sq)"
proof
  assume "has_auth_header
      (''wget  -O '' @ sq @ ''models/'' @ install_path m @ ''/'' @ name m @ sq
         @ '' '' @ sq @ url m @ sq)"
  then have "adjacent (CHR 0x27) CHR ''A''
      (''wget  -O '' @ sq @ ''models/'' @ install_path m @ ''/'' @ name m @ sq
         @ '' '' @ sq @ url m @ sq)"
    by (rule header_imp_adjacent)
  then have first: "adjacent (CHR 0x27) CHR ''A''
      ((''models/'' @ install_path m @ ''/'' @ name m) @ sq @ '' '' @ sq @ url m @ sq)"
    by (simp add: sq_def)
  have "CHR 0x27 \<notin> set (''models/'' @ install_path m @ ''/'' @ name m)"
    using assms(1,2) by (simp add: quote_free_def)
  from adjacent_skip [OF this] first
  have second: "adjacent (CHR 0x27) CHR ''A'' (sq @ '' '' @ sq @ url m @ sq)"
    by blast
  from assms(4) obtain rest where u: "url m = CHR ''h'' # rest"
    by (cases "url m") (simp_all add: startswith_def)
  from second have third: "adjacent (CHR 0x27) CHR ''A'' (rest @ sq)"
    by (simp add: sq_def u adjacent_other)
  have "CHR 0x27 \<notin> set rest"
    using assms(3) u by (simp add: quote_free_def)
  from adjacent_skip [OF this] third have "adjacent (CHR 0x27) CHR ''A'' sq"
    by blast
  then show False
    by (simp add: sq_def)
qed

lemma header_line_of_host:
  assumes "spec_host_is_hugging_face m \<and> hf_token config = Some tok \<and> tok \<noteq> []"
  shows "wget_line config m =
        ''wget --header='Authorization: Bearer '' @ tok @ sq @ '' -O '' @ sq @ ''models/''
          @ install_path m @ ''/'' @ name m @ sq @ '' '' @ sq @ url m @ sq"
    and "has_auth_header (wget_line config m)"
proof -
  from assms have "str_contains ''huggingface.co'' (url m)"
    using host_mentions_imp_url_mentions by blast
  with assms have args: "wget_args config m = ''--header='Authorization: Bearer '' @ tok @ sq"
    by (simp add: wget_args_def)
  then show line: "wget_line config m =
        ''wget --header='Authorization: Bearer '' @ tok @ sq @ '' -O '' @ sq @ ''models/''
          @ install_path m @ ''/'' @ name m @ sq @ '' '' @ sq @ url m @ sq"
    by (simp add: wget_line_def)
  have "has_auth_header (''wget '' @ (''--header='Authorization: Bearer '' @ tok @ sq)
      @ ('' -O '' @ sq @ ''models/'' @ install_path m @ ''/'' @ name m @ sq
          @ '' '' @ sq @ url m @ sq))"
    by (rule header_line_has_header)
  then show "has_auth_header (wget_line config m)"
    by (simp add: line)
qed

lemma plain_line_of_model:
  assumes "startswith (url m) ''http'' \<and>
    (\<not> str_contains ''huggingface.co'' (url m) \<or> \<not> str_truthy (hf_token config)) \<and>
    quote_free (name m) \<and> quote_free (install_path m) \<and> quote_free (url m)"
  shows "wget_line config m =
        ''wget  -O '' @ sq @ ''models/'' @ install_path m @ ''/'' @ name m @ sq
          @ '' '' @ sq @ url m @ sq"
    and "\<not> has_auth_header (wget_line config m)"
proof -
  from assms have "wget_args config m = []"
    by (auto simp: wget_args_def split: option.splits)
  then show line: "wget_line config m =
        ''wget  -O '' @ sq @ ''models/'' @ install_path m @ ''/'' @ name m @ sq
          @ '' '' @ sq @ url m @ sq"
    by (simp add: wget_line_def)
  from assms have "\<not> has_auth_header
      (''wget  -O '' @ sq @ ''models/'' @ install_path m @ ''/'' @ name m @ sq
         @ '' '' @ sq @ url m @ sq)"
    by (intro plain_line_no_header) simp_all
  then show "\<not> has_auth_header (wget_line config m)"
    by (simp add: line)
qed

text \<open>
  Claim C1, as stated, fails at three inputs. With a token configured, a URL whose host
  is \<open>mirror.example.com\<close> and whose path mentions the Hugging Face domain gets a download
  line with the authorization header; a URL on the Hugging Face host with a scheme other
  than HTTP(S) gets no download line at all; and with no token configured, a name that
  closes the quote gives a download line that contains an authorization header.
\<close>

theorem auth_header_foreign_host_counterexample:
  "mirror_model \<in> set (models mirror_config) \<and>
   str_truthy (hf_token mirror_config) \<and>
   spec_url_host (url mirror_model) = ''mirror.example.com'' \<and>
   \<not> spec_host_is_hugging_face mirror_model \<and>
   filter has_auth_header (split_lines (generate_setup_script mirror_config)) =
     [''wget --header='Authorization: Bearer tok' -O 'models/checkpoints/m.bin' 'https://mirror.example.com/huggingface.co/m.bin'' @ sq] \<and>
   ftp_model \<in> set (models ftp_config) \<and>
   str_truthy (hf_token ftp_config) \<and>
   spec_host_is_hugging_face ftp_model \<and>
   filter is_download_line (split_lines (generate_setup_script ftp_config)) = [] \<and>
   quote_model \<in> set (models quote_config) \<and>
   hf_token quote_config = None \<and>
   filter has_auth_header
     (filter is_download_line (split_lines (generate_setup_script quote_config))) =
     [''wget  -O 'models/checkpoints/a.bin' --header='Authorization: Bearer other' 'http://example.com/a.bin'' @ sq]"
  by code_simp

text \<open>
  Claim C1, amended. When no field that enters the script holds a line break, the
  download lines of the returned text are, in order, the lines of the models whose URL
  starts with \<open>http\<close>. The line of a model contains an authorization header embedding
  the token when the host of its URL contains the Hugging Face domain and a non-empty
  token is configured, and is then among the header-carrying download lines of the text.
  It contains no authorization header when its URL starts with \<open>http\<close> and does not
  mention the domain anywhere, or no non-empty token is configured, and the name, install
  path and URL of the model hold no single quote; when that is so for every model that
  passes the check, no download line of the text contains an authorization header.
\<close>

theorem text_auth_header_by_host_and_token:
  "(single_line_fields config \<longrightarrow>
      filter is_download_line (split_lines (generate_setup_script config)) =
        map (wget_line config) (filter (\<lambda>m. startswith (url m) ''http'') (models config))) \<and>
   (spec_host_is_hugging_face m \<and> hf_token config = Some tok \<and> tok \<noteq> [] \<longrightarrow>
      wget_line config m =
        ''wget --header='Authorization: Bearer '' @ tok @ sq @ '' -O '' @ sq @ ''models/''
          @ install_path m @ ''/'' @ name m @ sq @ '' '' @ sq @ url m @ sq \<and>
      has_auth_header (wget_line config m)) \<and>
   (single_line_fields config \<and> m \<in> set (models config) \<and> startswith (url m) ''http'' \<and>
    spec_host_is_hugging_face m \<and> hf_token config = Some tok \<and> tok \<noteq> [] \<longrightarrow>
      wget_line config m
        \<in> set (filter has_auth_header
            (filter is_download_line (split_lines (generate_setup_script config))))) \<and>
   (startswith (url m) ''http'' \<and>
    (\<not> str_contains ''huggingface.co'' (url m) \<or> \<not> str_truthy (hf_token config)) \<and>
    quote_free (name m) \<and> quote_free (install_path m) \<and> quote_free (url m) \<longrightarrow>
      wget_line config m =
        ''wget  -O '' @ sq @ ''models/'' @ install_path m @ ''/'' @ name m @ sq
          @ '' '' @ sq @ url m @ sq \<and>
      \<not> has_auth_header (wget_line config m)) \<and>
   (single_line_fields config \<and>
    list_all
      (\<lambda>m. (\<not> str_contains ''huggingface.co'' (url m) \<or> \<not> str_truthy (hf_token config)) \<and>
           quote_free (name m) \<and> quote_free (install_path m) \<and> quote_free (url m))
      (filter (\<lambda>m. startswith (url m) ''http'') (models config)) \<longrightarrow>
      filter has_auth_header
        (filter is_download_line (split_lines (generate_setup_script config))) = [])"
proof (intro conjI impI)
  assume "single_line_fields config"
  then show "filter is_download_line (split_lines (generate_setup_script config)) =
        map (wget_line config) (filter (\<lambda>m. startswith (url m) ''http'') (models config))"
    by (rule text_download_lines)
next
  assume "spec_host_is_hugging_face m \<and> hf_token config = Some tok \<and> tok \<noteq> []"
  then show "wget_line config m =
        ''wget --header='Authorization: Bearer '' @ tok @ sq @ '' -O '' @ sq @ ''models/''
          @ install_path m @ ''/'' @ name m @ sq @ '' '' @ sq @ url m @ sq"
    using header_line_of_host by blast
next
  assume "spec_host_is_hugging_face m \<and> hf_token config = Some tok \<and> tok \<noteq> []"
  then show "has_auth_header (wget_line config m)"
    using header_line_of_host by blast
next
  assume h: "single_line_fields config \<and> m \<in> set (models config) \<and>
    startswith (url m) ''http'' \<and>
    spec_host_is_hugging_face m \<and> hf_token config = Some tok \<and> tok \<noteq> []"
  then have "has_auth_header (wget_line config m)"
    using header_line_of_host by blast
  moreover from h have "wget_line config m
      \<in> set (filter is_download_line (split_lines (generate_setup_script config)))"
    by (simp add: text_download_lines)
  ultimately show "wget_line config m
        \<in> set (filter has_auth_header
            (filter is_download_line (split_lines (generate_setup_script config))))"
    by simp
next
  assume "startswith (url m) ''http'' \<and>
    (\<not> str_contains ''huggingface.co'' (url m) \<or> \<not> str_truthy (hf_token config)) \<and>
    quote_free (name m) \<and> quote_free (install_path m) \<and> quote_free (url m)"
  then show "wget_line config m =
        ''wget  -O '' @ sq @ ''models/'' @ install_path m @ ''/'' @ name m @ sq
          @ '' '' @ sq @ url m @ sq"
    using plain_line_of_model by blast
next
  assume "startswith (url m) ''http'' \<and>
    (\<not> str_contains ''huggingface.co'' (url m) \<or> \<not> str_truthy (hf_token config)) \<and>
    quote_free (name m) \<and> quote_free (install_path m) \<and> quote_free (url m)"
  then show "\<not> has_auth_header (wget_line config m)"
    using plain_line_of_model by blast
next
  assume h: "single_line_fields config \<and>
    list_all
      (\<lambda>m. (\<not> str_contains ''huggingface.co'' (url m) \<or> \<not> str_truthy (hf_token config)) \<and>
           quote_free (name m) \<and> quote_free (install_path m) \<and> quote_free (url m))
      (filter (\<lambda>m. startswith (url m) ''http'') (models config))"
  have "\<forall>m \<in> set (filter (\<lambda>m. startswith (url m) ''http'') (models config)).
      \<not> has_auth_header (wget_line config m)"
  proof
    fix x
    assume x: "x \<in> set (filter (\<lambda>m. startswith (url m) ''http'') (models config))"
    then have "startswith (url x) ''http''" by simp
    moreover from h x have
      "(\<not> str_contains ''huggingface.co'' (url x) \<or> \<not> str_truthy (hf_token config)) \<and>
       quote_free (name x) \<and> quote_free (install_path x) \<and> quote_free (url x)"
      unfolding list_all_iff by blast
    ultimately show "\<not> has_auth_header (wget_line config x)"
      by (intro plain_line_of_model(2)) blast
  qed
  then have "filter has_auth_header
      (map (wget_line config) (filter (\<lambda>m. startswith (url m) ''http'') (models config))) = []"
    by (simp only: filter_empty_conv set_map) blast
  with h show "filter has_auth_header
        (filter is_download_line (split_lines (generate_setup_script config))) = []"
    by (simp only: text_download_lines)
qed

theorem text_auth_header_by_host_and_token_witness:
  "single_line_fields scenario2_config \<and>
   scenario2_model \<in> set (models scenario2_config) \<and>
   startswith (url scenario2_model) ''http'' \<and>
   spec_host_is_hugging_face scenario2_model \<and>
   hf_token scenario2_config = Some ''tok'' \<and>
   filter has_auth_header
     (filter is_download_line (split_lines (generate_setup_script scenario2_config))) =
     [''wget --header='Authorization: Bearer tok' -O 'models/checkpoints/a.safetensors' 'https://huggingface.co/x/a.safetensors'' @ sq] \<and>
   wget_line scenario2_config scenario2_model
     \<in> set (filter has_auth_header
         (filter is_download_line (split_lines (generate_setup_script scenario2_config)))) \<and>
   startswith (url dup_model) ''http'' \<and>
   \<not> str_contains ''huggingface.co'' (url dup_model) \<and>
   quote_free (name dup_model) \<and> quote_free (install_path dup_model) \<and>
   quote_free (url dup_model) \<and>
   wget_line scenario2_config dup_model =
     ''wget  -O 'models/vae/d.pt' 'http://example.com/d.pt'' @ sq \<and>
   \<not> has_auth_header (wget_line scenario2_config dup_model) \<and>
   single_line_fields dup_config \<and>
   hf_token dup_config = None \<and>
   length (filter is_download_line (split_lines (generate_setup_script dup_config))) = 2 \<and>
   filter has_auth_header
     (filter is_download_line (split_lines (generate_setup_script dup_config))) = []"
proof -
  have h1: "single_line_fields scenario2_config" by code_simp
  have h2: "spec_host_is_hugging_face scenario2_model \<and>
      hf_token scenario2_config = Some ''tok'' \<and> ''tok'' \<noteq> []"
    by code_simp
  have h2a: "single_line_fields scenario2_config \<and>
      scenario2_model \<in> set (models scenario2_config) \<and>
      startswith (url scenario2_model) ''http'' \<and>
      spec_host_is_hugging_face scenario2_model \<and>
      hf_token scenario2_config = Some ''tok'' \<and> ''tok'' \<noteq> []"
    by code_simp
  have h3: "startswith (url dup_model) ''http'' \<and>
      (\<not> str_contains ''huggingface.co'' (url dup_model)
        \<or> \<not> str_truthy (hf_token scenario2_config)) \<and>
      quote_free (name dup_model) \<and> quote_free (install_path dup_model) \<and>
      quote_free (url dup_model)"
    by code_simp
  have h3a: "\<not> str_contains ''huggingface.co'' (url dup_model)" by code_simp
  have h4: "single_line_fields dup_config \<and>
    list_all
      (\<lambda>m. (\<not> str_contains ''huggingface.co'' (url m) \<or> \<not> str_truthy (hf_token dup_config)) \<and>
           quote_free (name m) \<and> quote_free (install_path m) \<and> quote_free (url m))
      (filter (\<lambda>m. startswith (url m) ''http'') (models dup_config))"
    by code_simp
  have h4a: "hf_token dup_config = None" by code_simp
  have ws: "map (wget_line scenario2_config)
        (filter (\<lambda>m. startswith (url m) ''http'') (models scenario2_config)) =
     [wget_line scenario2_config scenario2_model]"
    by code_simp
  have wl: "wget_line scenario2_config scenario2_model =
     ''wget --header='Authorization: Bearer tok' -O 'models/checkpoints/a.safetensors' 'https://huggingface.co/x/a.safetensors'' @ sq"
    by code_simp
  have pl: "''wget  -O '' @ sq @ ''models/'' @ install_path dup_model @ ''/'' @ name dup_model
      @ sq @ '' '' @ sq @ url dup_model @ sq =
      ''wget  -O 'models/vae/d.pt' 'http://example.com/d.pt'' @ sq"
    by code_simp
  have n: "length (map (wget_line dup_config)
      (filter (\<lambda>m. startswith (url m) ''http'') (models dup_config))) = 2"
    by code_simp
  note th = text_auth_header_by_host_and_token
  note t1 = th [of scenario2_config scenario2_model "''tok''", THEN conjunct1, rule_format, OF h1]
  note t2 = th [of scenario2_config scenario2_model "''tok''", THEN conjunct2, THEN conjunct1,
      rule_format, OF h2]
  note t2a = th [of scenario2_config scenario2_model "''tok''", THEN conjunct2, THEN conjunct2,
      THEN conjunct1, rule_format, OF h2a]
  note t3 = th [of scenario2_config dup_model "''tok''", THEN conjunct2, THEN conjunct2,
      THEN conjunct2, THEN conjunct1, rule_format, OF h3]
  note t4 = th [of dup_config dup_model "''tok''", THEN conjunct2, THEN conjunct2,
      THEN conjunct2, THEN conjunct2, rule_format, OF h4]
  note t5 = th [of dup_config dup_model "''tok''", THEN conjunct1, rule_format,
      OF h4 [THEN conjunct1]]
  from t2 have hdr: "has_auth_header (wget_line scenario2_config scenario2_model)"
    by blast
  from t1 have "filter is_download_line
      (split_lines (generate_setup_script scenario2_config)) =
      [wget_line scenario2_config scenario2_model]"
    by (simp only: ws)
  with hdr have "filter has_auth_header
     (filter is_download_line (split_lines (generate_setup_script scenario2_config))) =
     [wget_line scenario2_config scenario2_model]"
    by simp
  then have c1: "filter has_auth_header
     (filter is_download_line (split_lines (generate_setup_script scenario2_config))) =
     [''wget --header='Authorization: Bearer tok' -O 'models/checkpoints/a.safetensors' 'https://huggingface.co/x/a.safetensors'' @ sq]"
    by (simp only: wl)
  from t3 have "wget_line scenario2_config dup_model =
      ''wget  -O '' @ sq @ ''models/'' @ install_path dup_model @ ''/'' @ name dup_model
      @ sq @ '' '' @ sq @ url dup_model @ sq"
    by blast
  then have c3: "wget_line scenario2_config dup_model =
     ''wget  -O 'models/vae/d.pt' 'http://example.com/d.pt'' @ sq"
    by (simp only: pl)
  from t3 have c4: "\<not> has_auth_header (wget_line scenario2_config dup_model)"
    by blast
  from t5 n have c5: "length (filter is_download_line
      (split_lines (generate_setup_script dup_config))) = 2"
    by (simp only:)
  from h2a h3 h3a h4 h4a c1 t2a c3 c4 c5 t4 show ?thesis by (intro conjI) blast+
qed

section \<open>Determinism of the synthesis\<close>









section \<open>Polling until the instance is ready\<close>

lemma poll_step_exited:
  "desiredStatus p = ''EXITED'' \<Longrightarrow>
     poll_step p = Some (Inl (RuntimeError ''Pod exited unexpectedly''))"
  by (simp add: poll_step_def)

lemma poll_step_ready:
  "desiredStatus p = ''RUNNING'' \<Longrightarrow> spec_ports_populated p \<Longrightarrow> poll_step p = Some (Inr p)"
  by (auto simp: poll_step_def runtime_ports_populated_def spec_ports_populated_def
      split: entry.splits)

lemma poll_step_returns:
  "poll_step p = Some (Inr q) \<Longrightarrow>
     q = p \<and> desiredStatus p = ''RUNNING'' \<and> spec_ports_populated p"
  by (auto simp: poll_step_def runtime_ports_populated_def spec_ports_populated_def
      split: entry.splits if_splits sum.splits bool.splits)

lemma poll_step_waits:
  "poll_step p = None \<Longrightarrow> desiredStatus p \<noteq> ''EXITED''"
  by (auto simp: poll_step_def split: if_splits sum.splits bool.splits)

text \<open>
  A running instance whose \<open>runtime\<close> is still \<open>None\<close> ends the loop with the
  attribute error of \<open>None.get\<close>.
\<close>

lemma poll_step_runtime_none:
  "desiredStatus p = ''RUNNING'' \<Longrightarrow> runtime p = PyNone \<Longrightarrow>
     poll_step p =
       Some (Inl (AttributeError
         (sq @ ''NoneType'' @ sq @ '' object has no attribute '' @ sq @ ''get'' @ sq)))"
  by (simp add: poll_step_def runtime_ports_populated_def)

lemma wait_loop_stop:
  "poll_step (get_pod k) = Some r \<Longrightarrow> wait_loop get_pod k = Some (r, Suc k)"
  by (subst wait_loop.simps) simp

lemma wait_loop_skip:
  "(\<forall>j<n. poll_step (get_pod (k + j)) = None) \<Longrightarrow>
     wait_loop get_pod k = wait_loop get_pod (k + n)"
proof (induction n arbitrary: k)
  case 0
  then show ?case by simp
next
  case (Suc n)
  from Suc.prems [rule_format, of 0] have first: "poll_step (get_pod k) = None"
    by simp
  have "\<forall>j<n. poll_step (get_pod (Suc k + j)) = None"
  proof (intro allI impI)
    fix j assume "j < n"
    with Suc.prems [rule_format, of "Suc j"] show "poll_step (get_pod (Suc k + j)) = None"
      by simp
  qed
  then have "wait_loop get_pod (Suc k) = wait_loop get_pod (Suc k + n)"
    by (rule Suc.IH)
  moreover from first have "wait_loop get_pod k = wait_loop get_pod (Suc k)"
    by (subst wait_loop.simps) simp
  ultimately show ?case by simp
qed

lemma wait_loop_first:
  assumes "\<forall>j<n. poll_step (get_pod j) = None" and "poll_step (get_pod n) = Some r"
  shows "wait_loop get_pod 0 = Some (r, Suc n)"
proof -
  from assms(1) have "wait_loop get_pod 0 = wait_loop get_pod (0 + n)"
    by (intro wait_loop_skip) simp
  with assms(2) show ?thesis
    by (simp add: wait_loop_stop)
qed

lemma wait_loop_sound:
  assumes "wait_loop get_pod k = Some res"
  shows "\<exists>n\<ge>k. snd res = Suc n \<and> poll_step (get_pod n) = Some (fst res) \<and>
       (\<forall>j. k \<le> j \<and> j < n \<longrightarrow> poll_step (get_pod j) = None)"
proof (rule wait_loop.raw_induct
    [where P = "\<lambda>g k res. \<exists>n\<ge>k. snd res = Suc n \<and> poll_step (g n) = Some (fst res) \<and>
       (\<forall>j. k \<le> j \<and> j < n \<longrightarrow> poll_step (g j) = None)", OF _ assms])
  fix f :: "(nat \<Rightarrow> pod) \<Rightarrow> nat \<Rightarrow> ((error + pod) \<times> nat) option"
  fix g :: "nat \<Rightarrow> pod" and k :: nat and res :: "(error + pod) \<times> nat"
  assume IH: "\<And>g k res. f g k = Some res \<Longrightarrow>
      \<exists>n\<ge>k. snd res = Suc n \<and> poll_step (g n) = Some (fst res) \<and>
       (\<forall>j. k \<le> j \<and> j < n \<longrightarrow> poll_step (g j) = None)"
  assume body: "(case poll_step (g k) of None \<Rightarrow> f g (Suc k)
      | Some r \<Rightarrow> Some (r, Suc k)) = Some res"
  show "\<exists>n\<ge>k. snd res = Suc n \<and> poll_step (g n) = Some (fst res) \<and>
       (\<forall>j. k \<le> j \<and> j < n \<longrightarrow> poll_step (g j) = None)"
  proof (cases "poll_step (g k)")
    case None
    with body have "f g (Suc k) = Some res" by simp
    from IH [OF this] obtain n where n: "Suc k \<le> n" "snd res = Suc n"
      "poll_step (g n) = Some (fst res)"
      "\<forall>j. Suc k \<le> j \<and> j < n \<longrightarrow> poll_step (g j) = None"
      by blast
    have "\<forall>j. k \<le> j \<and> j < n \<longrightarrow> poll_step (g j) = None"
    proof (intro allI impI)
      fix j assume "k \<le> j \<and> j < n"
      then have "j = k \<or> (Suc k \<le> j \<and> j < n)" by arith
      with None n(4) show "poll_step (g j) = None" by blast
    qed
    with n show ?thesis
      by (intro exI [of _ n]) simp
  next
    case (Some r)
    with body have "res = (r, Suc k)" by simp
    with Some show ?thesis
      by (intro exI [of _ k]) auto
  qed
qed

lemma wait_loop_diverges:
  assumes "\<forall>j. poll_step (get_pod j) = None"
  shows "wait_loop get_pod k = None"
proof (cases "wait_loop get_pod k")
  case None
  then show ?thesis .
next
  case (Some res)
  then obtain n where "poll_step (get_pod n) = Some (fst res)"
    using wait_loop_sound by blast
  with assms show ?thesis by simp
qed

text \<open>
  Claim C4: when the loop reaches a poll that finds the desired status \<open>EXITED\<close>,
  \<open>wait_for_pod\<close> raises \<open>RuntimeError\<close> at that poll and polls no further; it returns
  at the first poll that finds the status \<open>RUNNING\<close> with populated port mappings; and a
  pod it returns is the one of its last poll, running with populated port mappings, no
  earlier poll having found the instance exited. While every poll says to wait, it does
  not return.
\<close>

theorem wait_for_pod_exit_and_return:
  "((\<forall>j<n. poll_step (provider pod_id j) = None) \<and>
      desiredStatus (provider pod_id n) = ''EXITED'' \<longrightarrow>
        wait_for_pod provider pod_id =
          Some (Inl (RuntimeError ''Pod exited unexpectedly''), Suc n)) \<and>
   ((\<forall>j<n. poll_step (provider pod_id j) = None) \<and>
      desiredStatus (provider pod_id n) = ''RUNNING'' \<and>
      spec_ports_populated (provider pod_id n) \<longrightarrow>
        wait_for_pod provider pod_id = Some (Inr (provider pod_id n), Suc n)) \<and>
   (wait_for_pod provider pod_id = Some (Inr p, c) \<longrightarrow>
      (\<exists>m. c = Suc m \<and> p = provider pod_id m \<and> desiredStatus p = ''RUNNING'' \<and>
           spec_ports_populated p \<and>
           (\<forall>j<m. poll_step (provider pod_id j) = None \<and>
                  desiredStatus (provider pod_id j) \<noteq> ''EXITED''))) \<and>
   ((\<forall>j. poll_step (provider pod_id j) = None) \<longrightarrow> wait_for_pod provider pod_id = None)"
proof (intro conjI impI)
  assume "(\<forall>j<n. poll_step (provider pod_id j) = None) \<and>
      desiredStatus (provider pod_id n) = ''EXITED''"
  then show "wait_for_pod provider pod_id =
          Some (Inl (RuntimeError ''Pod exited unexpectedly''), Suc n)"
    unfolding wait_for_pod_def
    by (intro wait_loop_first) (simp_all add: poll_step_exited)
next
  assume "(\<forall>j<n. poll_step (provider pod_id j) = None) \<and>
      desiredStatus (provider pod_id n) = ''RUNNING'' \<and>
      spec_ports_populated (provider pod_id n)"
  then show "wait_for_pod provider pod_id = Some (Inr (provider pod_id n), Suc n)"
    unfolding wait_for_pod_def
    by (intro wait_loop_first) (simp_all add: poll_step_ready)
next
  assume "wait_for_pod provider pod_id = Some (Inr p, c)"
  then obtain m where m: "c = Suc m" "poll_step (provider pod_id m) = Some (Inr p)"
    "\<forall>j. 0 \<le> j \<and> j < m \<longrightarrow> poll_step (provider pod_id j) = None"
    unfolding wait_for_pod_def using wait_loop_sound [of "provider pod_id" 0 "(Inr p, c)"]
    by auto
  from m(2) have "p = provider pod_id m \<and> desiredStatus p = ''RUNNING'' \<and> spec_ports_populated p"
    using poll_step_returns by blast
  moreover from m(3) have "\<forall>j<m. poll_step (provider pod_id j) = None \<and>
                  desiredStatus (provider pod_id j) \<noteq> ''EXITED''"
    using poll_step_waits by simp
  ultimately show "\<exists>m. c = Suc m \<and> p = provider pod_id m \<and> desiredStatus p = ''RUNNING'' \<and>
           spec_ports_populated p \<and>
           (\<forall>j<m. poll_step (provider pod_id j) = None \<and>
                  desiredStatus (provider pod_id j) \<noteq> ''EXITED'')"
    using m(1) by blast
next
  assume "\<forall>j. poll_step (provider pod_id j) = None"
  then show "wait_for_pod provider pod_id = None"
    unfolding wait_for_pod_def by (rule wait_loop_diverges)
qed

lemma starting_pod_waits: "poll_step starting_pod = None"
  by (simp add: poll_step_def starting_pod_def)

theorem wait_for_pod_exit_and_return_witness:
  "poll_step (exits_on_third_poll ''pod-1'' 0) = None \<and>
   poll_step (exits_on_third_poll ''pod-1'' 1) = None \<and>
   desiredStatus (exits_on_third_poll ''pod-1'' 2) = ''EXITED'' \<and>
   wait_for_pod exits_on_third_poll ''pod-1'' =
     Some (Inl (RuntimeError ''Pod exited unexpectedly''), 3) \<and>
   poll_step (ready_on_third_poll ''pod-1'' 0) = None \<and>
   poll_step (ready_on_third_poll ''pod-1'' 1) = None \<and>
   desiredStatus (ready_on_third_poll ''pod-1'' 2) = ''RUNNING'' \<and>
   spec_ports_populated (ready_on_third_poll ''pod-1'' 2) \<and>
   wait_for_pod ready_on_third_poll ''pod-1'' = Some (Inr running_pod, 3) \<and>
   wait_for_pod (\<lambda>pod_id k. starting_pod) ''pod-1'' = None"
proof -
  have h1: "(\<forall>j<2. poll_step (exits_on_third_poll ''pod-1'' j) = None) \<and>
      desiredStatus (exits_on_third_poll ''pod-1'' 2) = ''EXITED''"
    by (simp add: exits_on_third_poll_def starting_pod_waits exited_pod_def)
  have h2: "(\<forall>j<2. poll_step (ready_on_third_poll ''pod-1'' j) = None) \<and>
      desiredStatus (ready_on_third_poll ''pod-1'' 2) = ''RUNNING'' \<and>
      spec_ports_populated (ready_on_third_poll ''pod-1'' 2)"
    by (simp add: ready_on_third_poll_def starting_pod_waits running_pod_def
        spec_ports_populated_def)
  have h3: "\<forall>j. poll_step ((\<lambda>pod_id k. starting_pod) ''pod-1'' j) = None"
    by (simp add: starting_pod_waits)
  have r: "ready_on_third_poll ''pod-1'' 2 = running_pod"
    by (simp add: ready_on_third_poll_def)
  from h1 wait_for_pod_exit_and_return [of 2 exits_on_third_poll "''pod-1''", THEN conjunct1]
  have c1: "wait_for_pod exits_on_third_poll ''pod-1'' =
     Some (Inl (RuntimeError ''Pod exited unexpectedly''), Suc 2)"
    by blast
  from h2 wait_for_pod_exit_and_return [of 2 ready_on_third_poll "''pod-1''",
      THEN conjunct2, THEN conjunct1]
  have c2: "wait_for_pod ready_on_third_poll ''pod-1'' =
     Some (Inr (ready_on_third_poll ''pod-1'' 2), Suc 2)"
    by blast
  from h3 wait_for_pod_exit_and_return [of 0 "\<lambda>pod_id k. starting_pod" "''pod-1''",
      THEN conjunct2, THEN conjunct2, THEN conjunct2]
  have c3: "wait_for_pod (\<lambda>pod_id k. starting_pod) ''pod-1'' = None"
    by blast
  have three: "Suc 2 = 3" by simp
  have e: "poll_step (exits_on_third_poll ''pod-1'' 0) = None"
    "poll_step (exits_on_third_poll ''pod-1'' 1) = None"
    "poll_step (ready_on_third_poll ''pod-1'' 0) = None"
    "poll_step (ready_on_third_poll ''pod-1'' 1) = None"
    by (simp_all add: exits_on_third_poll_def ready_on_third_poll_def starting_pod_waits)
  from h1 h2 c1 c2 c3 e show ?thesis
    unfolding r three by (intro conjI) simp_all
qed

section \<open>The remote session\<close>

lemma ssh_scan_no_match:
  "\<forall>m \<in> set ps. privatePort m \<noteq> 22 \<Longrightarrow> ssh_scan ps found = found"
  by (induction ps) simp_all

lemma ssh_info_no_match:
  "\<forall>m \<in> set (spec_port_mappings p). privatePort m \<noteq> 22 \<Longrightarrow> ssh_info p = (None, None)"
  by (auto simp: ssh_info_def spec_port_mappings_def ssh_scan_no_match split: entry.splits)

lemma output_lines_append: "output_lines (xs @ ys) = output_lines xs @ output_lines ys"
  by (induction xs rule: output_lines.induct) simp_all

lemma waiting_rounds_output:
  "output_lines (concat (replicate n [Connect a q, Sleep 2, Yield w])) = replicate n w"
  by (induction n) simp_all

lemma waiting_rounds_connects:
  "length (filter is_connect (concat (replicate n [Connect a q, Sleep 2, Yield w]))) = n"
  by (induction n) simp_all

lemma waiting_rounds_no_exec:
  "filter is_exec (concat (replicate n [Connect a q, Sleep 2, Yield w])) = []"
  by (induction n) simp_all

lemma connect_loop_all_fail:
  assumes "\<forall>j<retries. connect_error env j = Some (msg j)"
  shows "i < retries \<Longrightarrow>
    connect_loop env a q [i..<retries] =
      (concat (replicate (retries - 1 - i) [Connect a q, Sleep 2, Yield ''Waiting for SSH...''])
         @ [Connect a q, Yield (''Failed to connect via SSH: '' @ msg (retries - 1))],
       False)"
proof (induction "retries - i" arbitrary: i)
  case 0
  then show ?case by simp
next
  case (Suc d)
  from Suc.prems have range: "[i..<retries] = i # [Suc i..<retries]"
    by (rule upt_conv_Cons)
  from Suc.prems assms have fails: "connect_error env i = Some (msg i)"
    by simp
  show ?case
  proof (cases "i = retries - 1")
    case True
    then have last: "retries - 1 = i" by simp
    from True Suc.prems have "int i = int retries - 1" by simp
    with fails have "connect_loop env a q (i # [Suc i..<retries]) =
        ([Connect a q, Yield (''Failed to connect via SSH: '' @ msg i)], False)"
      by simp
    then show ?thesis
      unfolding range last by simp
  next
    case False
    with Suc.prems have next_in: "Suc i < retries" and not_last: "int i \<noteq> int retries - 1"
      by simp_all
    from Suc.hyps(2) have "d = retries - Suc i" by simp
    from Suc.hyps(1) [OF this next_in]
    have rest: "connect_loop env a q [Suc i..<retries] =
      (concat (replicate (retries - 1 - Suc i) [Connect a q, Sleep 2, Yield ''Waiting for SSH...''])
         @ [Connect a q, Yield (''Failed to connect via SSH: '' @ msg (retries - 1))],
       False)" .
    from next_in have count: "retries - Suc i = Suc (retries - Suc (Suc i))"
      by arith
    from fails not_last rest show ?thesis
      by (simp add: range count)
  qed
qed

lemma connect_loop_attempts:
  "length (filter is_connect (fst (connect_loop env a q is))) \<le> length is"
  by (induction "is") (auto split: option.splits prod.splits)

lemma run_script_no_connect: "filter is_connect (run_script env config) = []"
  by (simp add: run_script_def Let_def filter_map comp_def)

lemma execute_setup_attempts:
  "length (filter is_connect (execute_setup p config env)) \<le> 10"
proof (cases "ssh_info p")
  case (Pair ssh_port public_ip)
  show ?thesis
  proof (cases "\<not> int_truthy ssh_port \<or> \<not> str_truthy public_ip")
    case True
    with Pair show ?thesis
      by (simp add: execute_setup_def)
  next
    case False
    then obtain port_no addr where found: "ssh_port = Some port_no" "public_ip = Some addr"
      by (cases ssh_port; cases public_ip) auto
    obtain evs go_on where loop: "connect_loop env addr port_no [0..<retries] = (evs, go_on)"
      by (cases "connect_loop env addr port_no [0..<retries]")
    from connect_loop_attempts [of env addr port_no "[0..<retries]"] loop
    have "length (filter is_connect evs) \<le> 10"
      by (simp add: retries_def)
    with Pair False found loop show ?thesis
      by (simp add: execute_setup_def run_script_no_connect)
  qed
qed

text \<open>
  Claim C6: when no port mapping of the instance has private port 22, the run yields the
  single line \<open>Error: Could not find SSH port.\<close> and ends; it makes no connection
  attempt.
\<close>

theorem execute_setup_no_ssh_port:
  "(\<forall>m \<in> set (spec_port_mappings p). privatePort m \<noteq> 22) \<longrightarrow>
     execute_setup p config env = [Yield ''Error: Could not find SSH port.''] \<and>
     output_lines (execute_setup p config env) = [''Error: Could not find SSH port.''] \<and>
     filter is_connect (execute_setup p config env) = []"
  by (simp add: execute_setup_def ssh_info_no_match)

theorem execute_setup_no_ssh_port_witness:
  "map privatePort (spec_port_mappings http_only_pod) = [8188] \<and>
   execute_setup http_only_pod base_config refusing_env =
     [Yield ''Error: Could not find SSH port.''] \<and>
   output_lines (execute_setup http_only_pod base_config refusing_env) =
     [''Error: Could not find SSH port.''] \<and>
   filter is_connect (execute_setup http_only_pod base_config refusing_env) = []"
proof -
  have h: "\<forall>m \<in> set (spec_port_mappings http_only_pod). privatePort m \<noteq> 22"
    by (simp add: spec_port_mappings_def http_only_pod_def)
  have ps: "map privatePort (spec_port_mappings http_only_pod) = [8188]"
    by (simp add: spec_port_mappings_def http_only_pod_def)
  from h execute_setup_no_ssh_port [of http_only_pod base_config refusing_env] ps
  show ?thesis by blast
qed

text \<open>
  Claim C5: a run makes at most 10 connection attempts. When the address and port of the
  shell are found and each of the 10 attempts fails, every attempt but the last is
  followed by one \<open>Waiting for SSH...\<close> line, the last by one failure line, and the
  sequence ends there: nothing is written or executed remotely.
\<close>

theorem execute_setup_all_attempts_fail:
  "length (filter is_connect (execute_setup p config env)) \<le> 10 \<and>
   (ssh_info p = (Some port_no, Some addr) \<and> port_no \<noteq> 0 \<and> addr \<noteq> [] \<and>
    (\<forall>i<10. connect_error env i = Some (msg i)) \<longrightarrow>
      execute_setup p config env =
        Sleep 5 #
        concat (replicate 9 [Connect addr port_no, Sleep 2, Yield ''Waiting for SSH...''])
        @ [Connect addr port_no, Yield (''Failed to connect via SSH: '' @ msg 9)] \<and>
      length (filter is_connect (execute_setup p config env)) = 10 \<and>
      output_lines (execute_setup p config env) =
        replicate 9 ''Waiting for SSH...'' @ [''Failed to connect via SSH: '' @ msg 9] \<and>
      filter is_exec (execute_setup p config env) = [])"
proof (intro conjI impI)
  show "length (filter is_connect (execute_setup p config env)) \<le> 10"
    by (rule execute_setup_attempts)
next
  assume h: "ssh_info p = (Some port_no, Some addr) \<and> port_no \<noteq> 0 \<and> addr \<noteq> [] \<and>
    (\<forall>i<10. connect_error env i = Some (msg i))"
  then have "\<forall>j<retries. connect_error env j = Some (msg j)"
    by (simp add: retries_def)
  then have "connect_loop env addr port_no [0..<retries] =
      (concat (replicate (retries - 1 - 0)
          [Connect addr port_no, Sleep 2, Yield ''Waiting for SSH...''])
         @ [Connect addr port_no, Yield (''Failed to connect via SSH: '' @ msg (retries - 1))],
       False)"
    by (rule connect_loop_all_fail) (simp add: retries_def)
  then have loop: "connect_loop env addr port_no [0..<retries] =
      (concat (replicate 9 [Connect addr port_no, Sleep 2, Yield ''Waiting for SSH...''])
         @ [Connect addr port_no, Yield (''Failed to connect via SSH: '' @ msg 9)],
       False)"
    by (simp add: retries_def)
  from h have trace: "execute_setup p config env =
        Sleep 5 #
        concat (replicate 9 [Connect addr port_no, Sleep 2, Yield ''Waiting for SSH...''])
        @ [Connect addr port_no, Yield (''Failed to connect via SSH: '' @ msg 9)]"
    by (simp add: execute_setup_def loop)
  show "execute_setup p config env =
        Sleep 5 #
        concat (replicate 9 [Connect addr port_no, Sleep 2, Yield ''Waiting for SSH...''])
        @ [Connect addr port_no, Yield (''Failed to connect via SSH: '' @ msg 9)]"
    by (rule trace)
  show "length (filter is_connect (execute_setup p config env)) = 10"
    by (simp add: trace waiting_rounds_connects)
  show "output_lines (execute_setup p config env) =
        replicate 9 ''Waiting for SSH...'' @ [''Failed to connect via SSH: '' @ msg 9]"
    by (simp add: trace output_lines_append waiting_rounds_output)
  show "filter is_exec (execute_setup p config env) = []"
    by (simp add: trace waiting_rounds_no_exec)
qed

theorem execute_setup_all_attempts_fail_witness:
  "ssh_info running_pod = (Some 10022, Some ''203.0.113.7'') \<and>
   connect_error refusing_env = (\<lambda>i. Some ''refused'') \<and>
   length (filter is_connect (execute_setup running_pod base_config refusing_env)) = 10 \<and>
   output_lines (execute_setup running_pod base_config refusing_env) =
     replicate 9 ''Waiting for SSH...'' @ [''Failed to connect via SSH: refused''] \<and>
   filter is_exec (execute_setup running_pod base_config refusing_env) = []"
proof -
  have h: "ssh_info running_pod = (Some 10022, Some ''203.0.113.7'') \<and> (10022::int) \<noteq> 0 \<and>
    ''203.0.113.7'' \<noteq> [] \<and>
    (\<forall>i<10. connect_error refusing_env i = Some ((\<lambda>i. ''refused'') i))"
    by (simp add: ssh_info_def running_pod_def refusing_env_def)
  note r = execute_setup_all_attempts_fail
    [of running_pod base_config refusing_env 10022 "''203.0.113.7''" "\<lambda>i. ''refused''",
      THEN conjunct2, rule_format, OF h]
  from r have c1: "length (filter is_connect
      (execute_setup running_pod base_config refusing_env)) = 10"
    and c3: "filter is_exec (execute_setup running_pod base_config refusing_env) = []"
    by blast+
  from r have "output_lines (execute_setup running_pod base_config refusing_env) =
        replicate 9 ''Waiting for SSH...'' @ [''Failed to connect via SSH: '' @ ''refused'']"
    by blast
  then have c2: "output_lines (execute_setup running_pod base_config refusing_env) =
        replicate 9 ''Waiting for SSH...'' @ [''Failed to connect via SSH: refused'']"
    by simp
  have ce: "connect_error refusing_env = (\<lambda>i. Some ''refused'')"
    by (simp add: refusing_env_def)
  from h have si: "ssh_info running_pod = (Some 10022, Some ''203.0.113.7'')"
    by (rule conjunct1)
  from si ce c1 c2 c3 show ?thesis by (intro conjI)
qed

end
